theory Spec2Isabelle
  imports Main "HOL-Library.Word" "HOL-Library.Sublist"
begin

section \<open>JavaScript strings\<close>

text \<open>
  A JavaScript string is a sequence of 16-bit code units. The string literals of the
  source are all ASCII; \<open>ascii\<close> turns such a literal into its code units.
\<close>

type_synonym codeunit = "16 word"
type_synonym jsstring = "codeunit list"

definition ascii :: "string \<Rightarrow> jsstring" where
  "ascii s = map (\<lambda>c. of_nat (of_char c)) s"

text \<open>
  The code units that \<open>String.prototype.trim\<close> strips and that the regular expression
  class \<open>\s\<close> accepts: WhiteSpace and LineTerminator of ECMAScript.
\<close>

definition isWhiteSpace :: "codeunit \<Rightarrow> bool" where
  "isWhiteSpace c \<longleftrightarrow>
     c \<in> {0x0009, 0x000A, 0x000B, 0x000C, 0x000D, 0x0020, 0x00A0, 0x1680,
          0x2028, 0x2029, 0x202F, 0x205F, 0x3000, 0xFEFF}
     \<or> (0x2000 \<le> c \<and> c \<le> 0x200A)"

definition trim :: "jsstring \<Rightarrow> jsstring" where
  "trim s = rev (dropWhile isWhiteSpace (rev (dropWhile isWhiteSpace s)))"

text \<open>
  \<open>x || d\<close> on an optional string: \<open>undefined\<close> and the empty string are falsy.
\<close>

definition truthy :: "jsstring option \<Rightarrow> bool" where
  "truthy x \<longleftrightarrow> (case x of None \<Rightarrow> False | Some s \<Rightarrow> s \<noteq> [])"

definition orElse :: "jsstring option \<Rightarrow> jsstring \<Rightarrow> jsstring" where
  "orElse x d = (case x of None \<Rightarrow> d | Some s \<Rightarrow> if s \<noteq> [] then s else d)"

text \<open>\<open>x || 0\<close> on an optional number: \<open>undefined\<close> and \<open>0\<close> are falsy.\<close>

definition orZero :: "int option \<Rightarrow> int" where
  "orZero x = (case x of None \<Rightarrow> 0 | Some n \<Rightarrow> if n \<noteq> 0 then n else 0)"

section \<open>The two regular expressions of \<open>parseClaudeResponse\<close>\<close>

text \<open>
  Both expressions carry the flag \<open>i\<close> and no other. Every character of their
  literal parts is ASCII, and without the flag \<open>u\<close> a code unit from 128 on is never
  folded onto an ASCII one, so a literal character meets an input code unit exactly when the
  two agree after the letters \<open>a\<close> to \<open>z\<close> are put in upper case.
\<close>

definition canonicalize :: "codeunit \<Rightarrow> codeunit" where
  "canonicalize c = (if 0x61 \<le> c \<and> c \<le> 0x7A then c - 0x20 else c)"

text \<open>
  \<open>matchLiteral p s\<close>: the literal \<open>p\<close> matched at the start of \<open>s\<close>, ignoring case;
  the result is the input that follows the match.
\<close>

fun matchLiteral :: "jsstring \<Rightarrow> jsstring \<Rightarrow> jsstring option" where
  "matchLiteral [] s = Some s"
| "matchLiteral (p # ps) [] = None"
| "matchLiteral (p # ps) (c # cs) =
     (if canonicalize p = canonicalize c then matchLiteral ps cs else None)"

definition REASONING :: jsstring where
  "REASONING = ascii ''REASONING:''"

definition FINAL_ANSWER :: jsstring where
  "FINAL_ANSWER = ascii ''FINAL ANSWER:''"

text \<open>
  \<open>([\s\S]*?)(?=FINAL ANSWER:|$)\<close>: the lazy group takes code units one at a time and
  stops at the first position where the final-answer marker follows or the input ends.
\<close>

fun lazyUntilFinal :: "jsstring \<Rightarrow> jsstring" where
  "lazyUntilFinal [] = []"
| "lazyUntilFinal (c # cs) =
     (if matchLiteral FINAL_ANSWER (c # cs) \<noteq> None then [] else c # lazyUntilFinal cs)"

text \<open>
  \<open>response.match(/REASONING:\s*([\s\S]*?)(?=FINAL ANSWER:|$)/i)?.[1]\<close>: the leftmost
  position where the marker matches; \<open>\s*\<close> is greedy and what follows it always
  succeeds (at the latest at the end of the input), so it never gives a code unit back.
  \<open>None\<close> is \<open>undefined\<close> (no match).
\<close>

fun reasoningMatch :: "jsstring \<Rightarrow> jsstring option" where
  "reasoningMatch [] = None"
| "reasoningMatch (c # cs) =
     (case matchLiteral REASONING (c # cs) of
        Some rest \<Rightarrow> Some (lazyUntilFinal (dropWhile isWhiteSpace rest))
      | None \<Rightarrow> reasoningMatch cs)"

text \<open>
  \<open>response.match(/FINAL ANSWER:\s*([\s\S]*?)$/i)?.[1]\<close>: without the flag \<open>m\<close> the
  \<open>$\<close> is the end of the input, so the group is everything after the marker and the
  white space that follows it.
\<close>

fun finalAnswerMatch :: "jsstring \<Rightarrow> jsstring option" where
  "finalAnswerMatch [] = None"
| "finalAnswerMatch (c # cs) =
     (case matchLiteral FINAL_ANSWER (c # cs) of
        Some rest \<Rightarrow> Some (dropWhile isWhiteSpace rest)
      | None \<Rightarrow> finalAnswerMatch cs)"

record ParsedResponse =
  finalAnswer :: jsstring
  reasoning :: jsstring

definition parseClaudeResponse :: "jsstring \<Rightarrow> ParsedResponse" where
  "parseClaudeResponse reply =
     (let r = orElse (map_option trim (reasoningMatch reply)) (ascii ''No reasoning provided'');
          f = orElse (map_option trim (finalAnswerMatch reply)) (trim reply)
      in \<lparr> finalAnswer = f, reasoning = r \<rparr>)"

text \<open>
  A marker occurs in a string, in any letter case. This is the specification-side notion
  used to state when a reply contains a marker.
\<close>

fun containsMarker :: "jsstring \<Rightarrow> jsstring \<Rightarrow> bool" where
  "containsMarker p [] = (p = [])"
| "containsMarker p (c # cs) = (matchLiteral p (c # cs) \<noteq> None \<or> containsMarker p cs)"

text \<open>The reply format the synthesis prompt asks for.\<close>

definition formattedReply :: "jsstring \<Rightarrow> jsstring \<Rightarrow> jsstring" where
  "formattedReply r a =
     ascii ''REASONING:'' @ [0x0A] @ r @ [0x0A, 0x0A] @ ascii ''FINAL ANSWER:'' @ [0x0A] @ a"

section \<open>Thrown values\<close>

text \<open>
  What a \<open>throw\<close> or a rejected promise carries: an \<open>Error\<close> with its message and
  its stack (\<open>string | undefined\<close>), the repository's subclass \<open>AgentError\<close> with the
  agent's name and the original error, or a value that is no instance of \<open>Error\<close>.
\<close>

datatype thrown =
    JsError (message: jsstring) (stack: "jsstring option")
  | AgentError (message: jsstring) (stack: "jsstring option")
      (agentName: jsstring) (originalError: thrown)
  | NonError

fun instanceofError :: "thrown \<Rightarrow> bool" where
  "instanceofError NonError = False"
| "instanceofError _ = True"

section \<open>The remote services\<close>

text \<open>
  The three language-model clients are outside the program. A call is described by the
  clock at its two ends, \<open>clockBefore\<close> when the caller starts (the \<open>Date.now()\<close>
  before the \<open>try\<close> block) and \<open>clockAfter\<close> when the awaited call has settled (the
  source reads \<open>Date.now()\<close> there on the success path only), and by how the call
  settles (\<open>Inl\<close> a rejection or a throw, \<open>Inr\<close> the reply). For Gemini and Claude the
  reply is \<open>response.content.toString()\<close>; for OpenAI it is \<open>response.content\<close>, which
  the caller indexes itself. Logging is left out.
\<close>

record 'r remote =
  clockBefore :: int
  clockAfter :: int
  settles :: "thrown + 'r"

datatype content = Text jsstring | Blocks "jsstring option list"

record world =
  geminiInvoke :: "jsstring \<Rightarrow> jsstring remote"
  openaiInvoke :: "jsstring \<Rightarrow> content remote"
  claudeInvoke :: "jsstring \<Rightarrow> jsstring remote"
  captureStack :: "jsstring \<Rightarrow> jsstring option"

text \<open>The calls made to the remote services, in order, each with the text sent.\<close>

datatype invocation = GeminiInvoke jsstring | OpenAIInvoke jsstring | ClaudeInvoke jsstring

text \<open>
  \<open>new AgentError(message, agentName, originalError)\<close> and \<open>new Error(message)\<close>; the
  engine attaches the stack.
\<close>

definition newAgentError :: "world \<Rightarrow> jsstring \<Rightarrow> jsstring \<Rightarrow> thrown \<Rightarrow> thrown" where
  "newAgentError w msg agent original = AgentError msg (captureStack w msg) agent original"

definition newError :: "world \<Rightarrow> jsstring \<Rightarrow> thrown" where
  "newError w msg = JsError msg (captureStack w msg)"

section \<open>Types of the repository (\<open>types/index.ts\<close>)\<close>

record Metadata =
  geminiTime :: "int option"
  openaiTime :: "int option"
  claudeTime :: "int option"
  totalTime :: int

record AgentState =
  question :: jsstring
  geminiResponse :: "jsstring option"
  geminiError :: "jsstring option"
  openaiResponse :: "jsstring option"
  openaiError :: "jsstring option"
  finalAnswer :: "jsstring option"
  reasoning :: "jsstring option"
  metadata :: Metadata

record AgentResponse =
  response :: jsstring
  processingTime :: int
  error :: "jsstring option"

record ClaudeResponse =
  finalAnswer :: jsstring
  reasoning :: jsstring
  processingTime :: int

record Agents =
  gemini :: AgentResponse
  openai :: AgentResponse
  claude :: ClaudeResponse

record ChatResponseData =
  question :: jsstring
  agents :: Agents
  totalProcessingTime :: int

record ChatResponse =
  success :: bool
  data :: "ChatResponseData option"
  error :: "jsstring option"
  details :: "jsstring option"

section \<open>The branch callers\<close>

text \<open>
  Both return \<open>{ response, time }\<close>, here a pair, or throw (\<open>Inl\<close>). The second
  component of the result is the list of remote calls made.
\<close>

definition queryGemini ::
  "world \<Rightarrow> jsstring \<Rightarrow> (thrown + jsstring option \<times> int) \<times> invocation list" where
  "queryGemini w q =
     (let call = geminiInvoke w q in
      (case settles call of
         Inr responseText \<Rightarrow> Inr (Some responseText, clockAfter call - clockBefore call)
       | Inl err \<Rightarrow>
           Inl (newAgentError w (ascii ''Failed to get response from Gemini'')
                  (ascii ''Gemini'') err),
       [GeminiInvoke q]))"

text \<open>
  \<open>response.content[0].text\<close>: indexing an empty string or an empty array gives
  \<open>undefined\<close>, whose property read throws a TypeError; a character of a string and a
  block without text have no \<open>text\<close> (\<open>None\<close>).
\<close>

definition firstText :: "world \<Rightarrow> content \<Rightarrow> thrown + jsstring option" where
  "firstText w c =
     (case c of
        Text s \<Rightarrow>
          if s = []
          then Inl (newError w (ascii ''Cannot read properties of undefined (reading 'text')''))
          else Inr None
      | Blocks [] \<Rightarrow>
          Inl (newError w (ascii ''Cannot read properties of undefined (reading 'text')''))
      | Blocks (b # bs) \<Rightarrow> Inr b)"

definition queryOpenAI ::
  "world \<Rightarrow> jsstring \<Rightarrow> (thrown + jsstring option \<times> int) \<times> invocation list" where
  "queryOpenAI w q =
     (let call = openaiInvoke w q;
          tried = (case settles call of
                     Inr c \<Rightarrow>
                       (case firstText w c of
                          Inr responseText \<Rightarrow>
                            Inr (responseText, clockAfter call - clockBefore call)
                        | Inl err \<Rightarrow> Inl err)
                   | Inl err \<Rightarrow> Inl err) in
      (case tried of
         Inr r \<Rightarrow> Inr r
       | Inl err \<Rightarrow>
           Inl (newAgentError w (ascii ''Failed to get response from OpenAI'')
                  (ascii ''OpenAI'') err),
       [OpenAIInvoke q]))"

section \<open>The synthesis caller (\<open>claude.service.ts\<close>)\<close>

record SynthesisInput =
  question :: jsstring
  geminiResponse :: "jsstring option"
  geminiError :: "jsstring option"
  openaiResponse :: "jsstring option"
  openaiError :: "jsstring option"

record SynthesisOutput =
  finalAnswer :: jsstring
  reasoning :: jsstring
  time :: int

text \<open>The two fixed parts of the prompt template: before the question and after the answers.\<close>

definition promptOpening :: jsstring where
  "promptOpening =
     ascii ''You are tasked with synthesizing and evaluating responses from multiple AI models to provide the best possible answer to a user's question.\<newline>\<newline>Original Question: ''"

definition promptTask :: jsstring where
  "promptTask =
     ascii ''Your task:\<newline>1. Analyze both responses (if available) for accuracy, completeness, and quality\<newline>2. Synthesize the best aspects of both responses into a single, comprehensive answer\<newline>3. If only one response is available (due to errors), evaluate and potentially improve it\<newline>4. Provide clear reasoning for your synthesis approach\<newline>\<newline>Please structure your response EXACTLY as follows:\<newline>\<newline>REASONING:\<newline>[Your detailed reasoning about the responses and your synthesis approach]\<newline>\<newline>FINAL ANSWER:\<newline>[Your synthesized answer to the original question]''"

definition buildSynthesisPrompt :: "SynthesisInput \<Rightarrow> jsstring" where
  "buildSynthesisPrompt input =
     (let prompt = promptOpening @ SynthesisInput.question input @ ascii ''\<newline>\<newline>'';
          prompt =
            (if truthy (SynthesisInput.geminiResponse input)
             then prompt @ ascii ''Gemini's Response:\<newline>''
                    @ the (SynthesisInput.geminiResponse input) @ ascii ''\<newline>\<newline>''
             else if truthy (SynthesisInput.geminiError input)
             then prompt @ ascii ''Gemini's Response: [ERROR] ''
                    @ the (SynthesisInput.geminiError input) @ ascii ''\<newline>\<newline>''
             else prompt);
          prompt =
            (if truthy (SynthesisInput.openaiResponse input)
             then prompt @ ascii ''OpenAI's Response:\<newline>''
                    @ the (SynthesisInput.openaiResponse input) @ ascii ''\<newline>\<newline>''
             else if truthy (SynthesisInput.openaiError input)
             then prompt @ ascii ''OpenAI's Response: [ERROR] ''
                    @ the (SynthesisInput.openaiError input) @ ascii ''\<newline>\<newline>''
             else prompt)
      in prompt @ promptTask)"

definition synthesizeResponses ::
  "world \<Rightarrow> SynthesisInput \<Rightarrow> (thrown + SynthesisOutput) \<times> invocation list" where
  "synthesizeResponses w input =
     (let prompt = buildSynthesisPrompt input;
          call = claudeInvoke w prompt in
      (case settles call of
         Inr responseText \<Rightarrow>
           (let elapsed = clockAfter call - clockBefore call;
                parsed = parseClaudeResponse responseText
            in Inr \<lparr> SynthesisOutput.finalAnswer = ParsedResponse.finalAnswer parsed,
                      SynthesisOutput.reasoning = ParsedResponse.reasoning parsed,
                      time = elapsed \<rparr>)
       | Inl err \<Rightarrow>
           Inl (newAgentError w (ascii ''Failed to synthesize responses with Claude'')
                  (ascii ''Claude'') err),
       [ClaudeInvoke prompt]))"

section \<open>The orchestration (\<open>agent.service.ts\<close>)\<close>

text \<open>
  \<open>Promise.allSettled\<close> turns each promise into a settled result and rejects never;
  the results keep the positions of the promises. The order in which the two promises
  settle in time is not part of this sequential model.
\<close>

datatype 'a settled = Fulfilled 'a | Rejected thrown

definition settled :: "thrown + 'a \<Rightarrow> 'a settled" where
  "settled p = (case p of Inr v \<Rightarrow> Fulfilled v | Inl reason \<Rightarrow> Rejected reason)"

definition runParallelAgents :: "world \<Rightarrow> AgentState \<Rightarrow> AgentState \<times> invocation list" where
  "runParallelAgents w state =
     (let (geminiPromise, geminiCalls) = queryGemini w (AgentState.question state);
          (openaiPromise, openaiCalls) = queryOpenAI w (AgentState.question state);
          geminiResult = settled geminiPromise;
          openaiResult = settled openaiPromise;
          updatedState = state;
          updatedState =
            (case geminiResult of
               Fulfilled v \<Rightarrow>
                 updatedState
                   \<lparr> AgentState.geminiResponse := fst v,
                     metadata := (metadata updatedState) \<lparr> geminiTime := Some (snd v) \<rparr> \<rparr>
             | Rejected reason \<Rightarrow>
                 updatedState
                   \<lparr> AgentState.geminiError :=
                       Some (if instanceofError reason then message reason
                             else ascii ''Unknown error'') \<rparr>);
          updatedState =
            (case openaiResult of
               Fulfilled v \<Rightarrow>
                 updatedState
                   \<lparr> AgentState.openaiResponse := fst v,
                     metadata := (metadata updatedState) \<lparr> openaiTime := Some (snd v) \<rparr> \<rparr>
             | Rejected reason \<Rightarrow>
                 updatedState
                   \<lparr> AgentState.openaiError :=
                       Some (if instanceofError reason then message reason
                             else ascii ''Unknown error'') \<rparr>)
      in (updatedState, geminiCalls @ openaiCalls))"

text \<open>The object literal \<open>runClaudeSynthesis\<close> passes to \<open>synthesizeResponses\<close>.\<close>

definition synthesisInput :: "AgentState \<Rightarrow> SynthesisInput" where
  "synthesisInput state =
     \<lparr> SynthesisInput.question = AgentState.question state,
       SynthesisInput.geminiResponse = AgentState.geminiResponse state,
       SynthesisInput.geminiError = AgentState.geminiError state,
       SynthesisInput.openaiResponse = AgentState.openaiResponse state,
       SynthesisInput.openaiError = AgentState.openaiError state \<rparr>"

definition runClaudeSynthesis ::
  "world \<Rightarrow> AgentState \<Rightarrow> (thrown + AgentState) \<times> invocation list" where
  "runClaudeSynthesis w state =
     (case synthesizeResponses w (synthesisInput state) of
        (Inl err, calls) \<Rightarrow> (Inl err, calls)
      | (Inr out, calls) \<Rightarrow>
          (let total = orZero (geminiTime (metadata state))
                       + orZero (openaiTime (metadata state))
                       + time out
           in (Inr (state
                 \<lparr> AgentState.finalAnswer := Some (SynthesisOutput.finalAnswer out),
                   AgentState.reasoning := Some (SynthesisOutput.reasoning out),
                   metadata := (metadata state)
                     \<lparr> claudeTime := Some (time out), totalTime := total \<rparr> \<rparr>),
               calls)))"

text \<open>The initial state of \<open>executeAgentWorkflow\<close>.\<close>

definition initialState :: "jsstring \<Rightarrow> AgentState" where
  "initialState q =
     \<lparr> AgentState.question = q,
       AgentState.geminiResponse = None, AgentState.geminiError = None,
       AgentState.openaiResponse = None, AgentState.openaiError = None,
       AgentState.finalAnswer = None, AgentState.reasoning = None,
       metadata = \<lparr> geminiTime = None, openaiTime = None, claudeTime = None,
                    totalTime = 0 \<rparr> \<rparr>"

text \<open>The \<open>catch\<close> of \<open>executeAgentWorkflow\<close> logs and throws the same error again.\<close>

definition executeAgentWorkflow ::
  "world \<Rightarrow> jsstring \<Rightarrow> (thrown + AgentState) \<times> invocation list" where
  "executeAgentWorkflow w q =
     (let (stateAfterAgents, agentCalls) = runParallelAgents w (initialState q);
          (finalState, synthesisCalls) = runClaudeSynthesis w stateAfterAgents
      in (finalState, agentCalls @ synthesisCalls))"

section \<open>The response shapes (\<open>response.model.ts\<close>)\<close>

definition formatSuccessResponse :: "AgentState \<Rightarrow> ChatResponse" where
  "formatSuccessResponse state =
     (let geminiResponse' =
            \<lparr> response = orElse (AgentState.geminiResponse state) [],
              AgentResponse.processingTime = orZero (geminiTime (metadata state)),
              AgentResponse.error =
                (if truthy (AgentState.geminiError state) then AgentState.geminiError state
                 else None) \<rparr>;
          openaiResponse' =
            \<lparr> response = orElse (AgentState.openaiResponse state) [],
              AgentResponse.processingTime = orZero (openaiTime (metadata state)),
              AgentResponse.error =
                (if truthy (AgentState.openaiError state) then AgentState.openaiError state
                 else None) \<rparr>;
          data' =
            \<lparr> ChatResponseData.question = AgentState.question state,
              agents =
                \<lparr> gemini = geminiResponse',
                  openai = openaiResponse',
                  claude =
                    \<lparr> ClaudeResponse.finalAnswer = orElse (AgentState.finalAnswer state) [],
                      ClaudeResponse.reasoning = orElse (AgentState.reasoning state) [],
                      ClaudeResponse.processingTime = orZero (claudeTime (metadata state)) \<rparr> \<rparr>,
              totalProcessingTime = totalTime (metadata state) \<rparr>
      in \<lparr> success = True, data = Some data', ChatResponse.error = None, details = None \<rparr>)"

definition formatErrorResponse :: "thrown \<Rightarrow> ChatResponse" where
  "formatErrorResponse err =
     (let errorMessage = (if instanceofError err then message err
                          else ascii ''An unknown error occurred'');
          errorDetails = (if instanceofError err then stack err else None)
      in \<lparr> success = False, data = None, ChatResponse.error = Some errorMessage,
           details = errorDetails \<rparr>)"

section \<open>The request boundary (\<open>chat.controller.ts\<close>)\<close>

text \<open>
  The value of \<open>req.body.question\<close>, where \<open>req.body\<close> is the object the JSON body
  parser has left: a string, \<open>undefined\<close> (the property is missing), \<open>null\<close>, or any
  other value, whose \<open>typeof\<close> is not \<open>'string'\<close>.
\<close>

datatype jsvalue = JString jsstring | JUndefined | JNull | JOther

text \<open>
  The handler answers with a status and a body; the last component lists the remote calls
  the request caused. The guard is
  \<open>!question || typeof question !== 'string' || question.trim() === ''\<close>.
\<close>

definition askQuestion :: "world \<Rightarrow> jsvalue \<Rightarrow> int \<times> ChatResponse \<times> invocation list" where
  "askQuestion w v =
     (case v of
        JString s \<Rightarrow>
          if s = [] \<or> trim s = []
          then (400,
                formatErrorResponse
                  (newError w (ascii ''Question is required and must be a non-empty string'')),
                [])
          else
            (case executeAgentWorkflow w (trim s) of
               (Inr result, calls) \<Rightarrow> (200, formatSuccessResponse result, calls)
             | (Inl err, calls) \<Rightarrow> (500, formatErrorResponse err, calls))
      | _ \<Rightarrow>
          (400,
           formatErrorResponse
             (newError w (ascii ''Question is required and must be a non-empty string'')),
           []))"

section \<open>Notions used to state the properties\<close>

text \<open>
  The outcome of each branch for a question (\<open>Inl\<close>: the caller threw), the state the
  fan-out hands to the synthesis, and the prompt the synthesis sends.
\<close>

definition geminiOutcome :: "world \<Rightarrow> jsstring \<Rightarrow> thrown + jsstring option \<times> int" where
  "geminiOutcome w q = fst (queryGemini w q)"

definition openaiOutcome :: "world \<Rightarrow> jsstring \<Rightarrow> thrown + jsstring option \<times> int" where
  "openaiOutcome w q = fst (queryOpenAI w q)"

definition stateAfterAgents :: "world \<Rightarrow> jsstring \<Rightarrow> AgentState" where
  "stateAfterAgents w q = fst (runParallelAgents w (initialState q))"

definition synthesisPrompt :: "world \<Rightarrow> jsstring \<Rightarrow> jsstring" where
  "synthesisPrompt w q = buildSynthesisPrompt (synthesisInput (stateAfterAgents w q))"

text \<open>\<open>x\<close> read from an optional string that is \<open>undefined\<close> as the empty string.\<close>

definition textOf :: "jsstring option \<Rightarrow> jsstring" where
  "textOf x = (case x of None \<Rightarrow> [] | Some s \<Rightarrow> s)"

section \<open>Example runs\<close>

text \<open>
  A world in which each service answers every call in the same way, and the engine
  attaches no stack. The calls of the examples: Gemini answers \<open>Paris\<close> or the empty
  text after 100 ms or is unreachable after 100 ms, OpenAI answers \<open>Paris, France\<close>
  after 150 ms, as the text of a content block or as a plain string, or is unreachable,
  Claude answers in the requested format after 50 ms or is unreachable.
\<close>

definition scenario :: "jsstring remote \<Rightarrow> content remote \<Rightarrow> jsstring remote \<Rightarrow> world" where
  "scenario ge op cl =
     \<lparr> geminiInvoke = (\<lambda>q. ge), openaiInvoke = (\<lambda>q. op), claudeInvoke = (\<lambda>prompt. cl),
       captureStack = (\<lambda>msg. None) \<rparr>"

definition geminiParis :: "jsstring remote" where
  "geminiParis = \<lparr> clockBefore = 1000, clockAfter = 1100, settles = Inr (ascii ''Paris'') \<rparr>"

definition geminiEmpty :: "jsstring remote" where
  "geminiEmpty = \<lparr> clockBefore = 1000, clockAfter = 1100, settles = Inr [] \<rparr>"

definition geminiDown :: "jsstring remote" where
  "geminiDown =
     \<lparr> clockBefore = 1000, clockAfter = 1100,
       settles = Inl (JsError (ascii ''fetch failed'') None) \<rparr>"

definition openaiParis :: "content remote" where
  "openaiParis =
     \<lparr> clockBefore = 1000, clockAfter = 1150,
       settles = Inr (Blocks [Some (ascii ''Paris, France'')]) \<rparr>"

definition openaiString :: "content remote" where
  "openaiString =
     \<lparr> clockBefore = 1000, clockAfter = 1150,
       settles = Inr (Text (ascii ''Paris, France'')) \<rparr>"

definition openaiDown :: "content remote" where
  "openaiDown =
     \<lparr> clockBefore = 1000, clockAfter = 1150,
       settles = Inl (JsError (ascii ''socket hang up'') None) \<rparr>"

definition claudeParis :: "jsstring remote" where
  "claudeParis =
     \<lparr> clockBefore = 1150, clockAfter = 1200,
       settles = Inr (formattedReply (ascii ''Both agree.'') (ascii ''Paris.'')) \<rparr>"

definition claudeDown :: "jsstring remote" where
  "claudeDown =
     \<lparr> clockBefore = 1150, clockAfter = 1200,
       settles = Inl (JsError (ascii ''overloaded'') None) \<rparr>"

definition capital :: jsstring where
  "capital = ascii ''What is the capital of France?''"

section \<open>Properties of the reply parser\<close>

lemma matchLiteral_Some_iff:
  "matchLiteral p s = Some w \<longleftrightarrow> (\<exists>v. s = v @ w \<and> map canonicalize v = map canonicalize p)"
proof (induction p s rule: matchLiteral.induct)
  case (1 s) show ?case by auto
next
  case (2 p ps) show ?case by auto
next
  case (3 p ps c cs)
  show ?case
  proof (cases "canonicalize p = canonicalize c")
    case True
    have "(\<exists>v. c # cs = v @ w \<and> map canonicalize v = map canonicalize (p # ps))
          \<longleftrightarrow> (\<exists>v'. cs = v' @ w \<and> map canonicalize v' = map canonicalize ps)"
      (is "?L \<longleftrightarrow> ?R")
    proof
      assume ?L
      then obtain v where v: "c # cs = v @ w" "map canonicalize v = map canonicalize (p # ps)" by blast
      then obtain x v' where "v = x # v'" by (cases v) auto
      with v show ?R by auto
    next
      assume ?R
      then obtain v' where "cs = v' @ w" "map canonicalize v' = map canonicalize ps" by blast
      with True have "c # cs = (c # v') @ w \<and> map canonicalize (c # v') = map canonicalize (p # ps)" by simp
      then show ?L by blast
    qed
    with 3 True show ?thesis by simp
  next
    case False
    have "\<not> (\<exists>v. c # cs = v @ w \<and> map canonicalize v = map canonicalize (p # ps))"
    proof
      assume "\<exists>v. c # cs = v @ w \<and> map canonicalize v = map canonicalize (p # ps)"
      then obtain v where v: "c # cs = v @ w" "map canonicalize v = map canonicalize (p # ps)" by blast
      then obtain x v' where "v = x # v'" by (cases v) auto
      with v False show False by auto
    qed
    with False show ?thesis by simp
  qed
qed

lemma containsMarker_iff:
  "containsMarker p s \<longleftrightarrow> (\<exists>u v w. s = u @ v @ w \<and> map canonicalize v = map canonicalize p)"
proof (induction s)
  case Nil
  show ?case by auto
next
  case (Cons c cs)
  have "matchLiteral p (c # cs) \<noteq> None \<longleftrightarrow>
        (\<exists>v w. c # cs = v @ w \<and> map canonicalize v = map canonicalize p)"
    using matchLiteral_Some_iff [of p "c # cs"] by auto
  moreover have "(\<exists>u v w. c # cs = u @ v @ w \<and> map canonicalize v = map canonicalize p) \<longleftrightarrow>
     (\<exists>v w. c # cs = v @ w \<and> map canonicalize v = map canonicalize p) \<or>
     (\<exists>u v w. cs = u @ v @ w \<and> map canonicalize v = map canonicalize p)"
    (is "?A \<longleftrightarrow> ?B \<or> ?C")
  proof
    assume ?A
    then obtain u v w where a: "c # cs = u @ v @ w" "map canonicalize v = map canonicalize p" by blast
    show "?B \<or> ?C"
    proof (cases u)
      case Nil with a show ?thesis by auto
    next
      case (Cons x u')
      with a have "cs = u' @ v @ w" by simp
      with a show ?thesis by blast
    qed
  next
    assume "?B \<or> ?C"
    then show ?A
    proof
      assume ?B
      then obtain v w where "c # cs = [] @ v @ w" "map canonicalize v = map canonicalize p" by auto
      then show ?A by blast
    next
      assume ?C
      then obtain u v w where "cs = u @ v @ w" "map canonicalize v = map canonicalize p" by blast
      then have "c # cs = (c # u) @ v @ w" by simp
      with \<open>map canonicalize v = map canonicalize p\<close> show ?A by blast
    qed
  qed
  ultimately show ?case using Cons by simp
qed

lemma FINAL_ANSWER_nonempty: "FINAL_ANSWER \<noteq> []"
  by (simp add: FINAL_ANSWER_def ascii_def)

lemma REASONING_nonempty: "REASONING \<noteq> []"
  by (simp add: REASONING_def ascii_def)

lemma finalAnswerMatch_None_iff: "finalAnswerMatch s = None \<longleftrightarrow> \<not> containsMarker FINAL_ANSWER s"
  by (induction s) (auto simp: FINAL_ANSWER_nonempty split: option.splits)

lemma reasoningMatch_None_iff: "reasoningMatch s = None \<longleftrightarrow> \<not> containsMarker REASONING s"
  by (induction s) (auto simp: REASONING_nonempty split: option.splits)

lemma all_dropWhile_iff: "(\<forall>c \<in> set (dropWhile P s). P c) \<longleftrightarrow> (\<forall>c \<in> set s. P c)"
  by (induction s) auto

lemma trim_eq_Nil_iff: "trim s = [] \<longleftrightarrow> (\<forall>c \<in> set s. isWhiteSpace c)"
  by (simp add: trim_def dropWhile_eq_Nil_conv all_dropWhile_iff)

lemma trim_dropWhile: "trim (dropWhile isWhiteSpace s) = trim s"
  by (simp add: trim_def)

lemma trim_append_space:
  assumes "\<forall>c \<in> set ws. isWhiteSpace c"
  shows "trim (s @ ws) = trim s"
proof (cases "\<forall>c \<in> set s. isWhiteSpace c")
  case True
  with assms have "\<forall>c \<in> set (s @ ws). isWhiteSpace c" by auto
  then have "trim (s @ ws) = []" by (simp only: trim_eq_Nil_iff)
  moreover from True have "trim s = []" by (simp only: trim_eq_Nil_iff)
  ultimately show ?thesis by simp
next
  case False
  then obtain x where "x \<in> set s" "\<not> isWhiteSpace x" by blast
  then have "dropWhile isWhiteSpace (s @ ws) = dropWhile isWhiteSpace s @ ws"
    by (rule dropWhile_append1)
  moreover have "dropWhile isWhiteSpace (rev ws @ t) = dropWhile isWhiteSpace t" for t
    using assms by (intro dropWhile_append2) simp
  ultimately show ?thesis by (simp add: trim_def)
qed

lemma matchLiteral_self: "matchLiteral p (p @ s) = Some s"
  by (induction p) simp_all

lemma matchLiteral_blocked:
  "matchLiteral p t = None \<Longrightarrow> \<forall>q \<in> set p. canonicalize q \<noteq> canonicalize x \<Longrightarrow>
   matchLiteral p (t @ x # s) = None"
  by (induction p t rule: matchLiteral.induct) (simp_all split: if_splits)

lemma newline_not_in_FINAL_ANSWER:
  "\<forall>q \<in> set FINAL_ANSWER. canonicalize q \<noteq> canonicalize 0x0A"
  by (simp add: FINAL_ANSWER_def ascii_def canonicalize_def)

lemma containsMarker_dropWhile:
  "\<not> containsMarker p s \<Longrightarrow> p \<noteq> [] \<Longrightarrow> \<not> containsMarker p (dropWhile P s)"
  by (induction s) auto

lemma matchLiteral_FINAL_ANSWER_newline: "matchLiteral FINAL_ANSWER (0x0A # u) = None"
  by (simp add: FINAL_ANSWER_def ascii_def canonicalize_def)

lemma lazyUntilFinal_at_marker: "lazyUntilFinal (FINAL_ANSWER @ s) = []"
proof -
  obtain c cs where "FINAL_ANSWER @ s = c # cs"
    using FINAL_ANSWER_nonempty by (cases "FINAL_ANSWER @ s") auto
  moreover have "matchLiteral FINAL_ANSWER (FINAL_ANSWER @ s) = Some s" by (rule matchLiteral_self)
  ultimately show ?thesis by simp
qed

lemma lazyUntilFinal_stops:
  "\<not> containsMarker FINAL_ANSWER t \<Longrightarrow>
   lazyUntilFinal (t @ [0x0A, 0x0A] @ FINAL_ANSWER @ s) = t @ [0x0A, 0x0A]"
proof (induction t)
  case Nil
  show ?case by (simp add: matchLiteral_FINAL_ANSWER_newline lazyUntilFinal_at_marker)
next
  case (Cons c cs)
  then have "matchLiteral FINAL_ANSWER (c # cs) = None" and "\<not> containsMarker FINAL_ANSWER cs" by auto
  then have "matchLiteral FINAL_ANSWER ((c # cs) @ 0x0A # ([0x0A] @ FINAL_ANSWER @ s)) = None"
    using matchLiteral_blocked newline_not_in_FINAL_ANSWER by blast
  with Cons show ?case by simp
qed

lemma finalAnswerMatch_skips:
  "\<not> containsMarker FINAL_ANSWER t \<Longrightarrow>
   finalAnswerMatch (t @ 0x0A # s) = finalAnswerMatch (0x0A # s)"
proof (induction t)
  case Nil show ?case by simp
next
  case (Cons c cs)
  then have "matchLiteral FINAL_ANSWER (c # cs) = None" and "\<not> containsMarker FINAL_ANSWER cs" by auto
  then have "matchLiteral FINAL_ANSWER ((c # cs) @ 0x0A # s) = None"
    using matchLiteral_blocked newline_not_in_FINAL_ANSWER by blast
  with Cons show ?case by simp
qed

lemma finalAnswerMatch_at_marker:
  "finalAnswerMatch (FINAL_ANSWER @ s) = Some (dropWhile isWhiteSpace s)"
proof -
  obtain c cs where "FINAL_ANSWER @ s = c # cs"
    using FINAL_ANSWER_nonempty by (cases "FINAL_ANSWER @ s") auto
  moreover have "matchLiteral FINAL_ANSWER (FINAL_ANSWER @ s) = Some s" by (rule matchLiteral_self)
  ultimately show ?thesis by simp
qed

lemma reasoningMatch_at_marker:
  "reasoningMatch (REASONING @ s) = Some (lazyUntilFinal (dropWhile isWhiteSpace s))"
proof -
  obtain c cs where "REASONING @ s = c # cs"
    using REASONING_nonempty by (cases "REASONING @ s") auto
  moreover have "matchLiteral REASONING (REASONING @ s) = Some s" by (rule matchLiteral_self)
  ultimately show ?thesis by simp
qed

lemma REASONING_has_no_FINAL_ANSWER: "\<not> containsMarker FINAL_ANSWER REASONING"
  by (simp add: FINAL_ANSWER_def REASONING_def ascii_def canonicalize_def)

lemma isWhiteSpace_newline: "isWhiteSpace 0x0A"
  by (simp add: isWhiteSpace_def)

lemma reasoningMatch_formatted:
  assumes "\<not> containsMarker FINAL_ANSWER r" and "trim r \<noteq> []"
  shows "reasoningMatch (formattedReply r a) = Some (dropWhile isWhiteSpace r @ [0x0A, 0x0A])"
proof -
  let ?tail = "[0x0A, 0x0A] @ FINAL_ANSWER @ [0x0A] @ a"
  from assms(2) obtain x where x: "x \<in> set r" "\<not> isWhiteSpace x"
    by (auto simp: trim_eq_Nil_iff)
  have "formattedReply r a = REASONING @ (0x0A # r @ ?tail)"
    by (simp add: formattedReply_def REASONING_def FINAL_ANSWER_def)
  then have "reasoningMatch (formattedReply r a)
             = Some (lazyUntilFinal (dropWhile isWhiteSpace (r @ ?tail)))"
    by (simp add: reasoningMatch_at_marker isWhiteSpace_newline)
  also have "dropWhile isWhiteSpace (r @ ?tail) = dropWhile isWhiteSpace r @ ?tail"
    using x by (rule dropWhile_append1)
  also have "lazyUntilFinal (dropWhile isWhiteSpace r @ ?tail) = dropWhile isWhiteSpace r @ [0x0A, 0x0A]"
    using assms(1) FINAL_ANSWER_nonempty
    by (intro lazyUntilFinal_stops containsMarker_dropWhile)
  finally show ?thesis .
qed

lemma finalAnswerMatch_formatted:
  assumes "\<not> containsMarker FINAL_ANSWER r"
  shows "finalAnswerMatch (formattedReply r a) = Some (dropWhile isWhiteSpace a)"
proof -
  have "formattedReply r a = REASONING @ 0x0A # (r @ 0x0A # (0x0A # FINAL_ANSWER @ 0x0A # a))"
    by (simp add: formattedReply_def REASONING_def FINAL_ANSWER_def)
  then have "finalAnswerMatch (formattedReply r a)
             = finalAnswerMatch (0x0A # (r @ 0x0A # (0x0A # FINAL_ANSWER @ 0x0A # a)))"
    using finalAnswerMatch_skips [OF REASONING_has_no_FINAL_ANSWER] by simp
  also have "\<dots> = finalAnswerMatch (r @ 0x0A # (0x0A # FINAL_ANSWER @ 0x0A # a))"
    by (simp add: matchLiteral_FINAL_ANSWER_newline)
  also have "\<dots> = finalAnswerMatch (0x0A # (0x0A # FINAL_ANSWER @ 0x0A # a))"
    using assms by (rule finalAnswerMatch_skips)
  also have "\<dots> = finalAnswerMatch (FINAL_ANSWER @ 0x0A # a)"
    by (simp add: matchLiteral_FINAL_ANSWER_newline)
  also have "\<dots> = Some (dropWhile isWhiteSpace a)"
    by (simp add: finalAnswerMatch_at_marker isWhiteSpace_newline)
  finally show ?thesis .
qed

text \<open>
  Claim C6, as the code has it. For a reply \<open>REASONING:\n<r>\n\nFINAL ANSWER:\n<a>\<close> in
  which \<open><r>\<close> does not contain the final-answer marker (in any letter case) and neither
  \<open><r>\<close> nor \<open><a>\<close> is empty after trimming, the parser returns the trimmed \<open><r>\<close>
  as reasoning and the trimmed \<open><a>\<close> as final answer. For a reply containing neither
  marker (in any letter case) it returns the placeholder as reasoning and the trimmed reply
  as final answer.
\<close>

theorem parseClaudeResponse_sections:
  "(\<not> containsMarker FINAL_ANSWER r \<and> trim r \<noteq> [] \<and> trim a \<noteq> [] \<longrightarrow>
      parseClaudeResponse (formattedReply r a) = \<lparr> ParsedResponse.finalAnswer = trim a, ParsedResponse.reasoning = trim r \<rparr>)
   \<and> (\<not> containsMarker REASONING s \<and> \<not> containsMarker FINAL_ANSWER s \<longrightarrow>
      parseClaudeResponse s
        = \<lparr> ParsedResponse.finalAnswer = trim s, ParsedResponse.reasoning = ascii ''No reasoning provided'' \<rparr>)"
proof (intro conjI impI)
  assume h: "\<not> containsMarker FINAL_ANSWER r \<and> trim r \<noteq> [] \<and> trim a \<noteq> []"
  then have rm: "reasoningMatch (formattedReply r a) = Some (dropWhile isWhiteSpace r @ [0x0A, 0x0A])"
    and fm: "finalAnswerMatch (formattedReply r a) = Some (dropWhile isWhiteSpace a)"
    by (simp_all add: reasoningMatch_formatted finalAnswerMatch_formatted)
  have "trim (dropWhile isWhiteSpace r @ [0x0A, 0x0A]) = trim r"
    by (simp add: trim_append_space isWhiteSpace_newline trim_dropWhile)
  with h rm fm show "parseClaudeResponse (formattedReply r a)
      = \<lparr> ParsedResponse.finalAnswer = trim a, ParsedResponse.reasoning = trim r \<rparr>"
    by (simp add: parseClaudeResponse_def orElse_def trim_dropWhile)
next
  assume "\<not> containsMarker REASONING s \<and> \<not> containsMarker FINAL_ANSWER s"
  then have "reasoningMatch s = None" and "finalAnswerMatch s = None"
    by (simp_all add: reasoningMatch_None_iff finalAnswerMatch_None_iff)
  then show "parseClaudeResponse s
      = \<lparr> ParsedResponse.finalAnswer = trim s, ParsedResponse.reasoning = ascii ''No reasoning provided'' \<rparr>"
    by (simp add: parseClaudeResponse_def orElse_def)
qed

theorem parseClaudeResponse_sections_witness:
  "parseClaudeResponse (formattedReply (ascii ''Both agree.'') (ascii ''Paris.''))
     = \<lparr> ParsedResponse.finalAnswer = ascii ''Paris.'', ParsedResponse.reasoning = ascii ''Both agree.'' \<rparr>
   \<and> parseClaudeResponse (ascii ''Paris.'')
     = \<lparr> ParsedResponse.finalAnswer = ascii ''Paris.'', ParsedResponse.reasoning = ascii ''No reasoning provided'' \<rparr>"
proof -
  have 1: "\<not> containsMarker FINAL_ANSWER (ascii ''Both agree.'')"
    by (simp add: FINAL_ANSWER_def ascii_def canonicalize_def)
  have 2: "trim (ascii ''Both agree.'') = ascii ''Both agree.''"
    by (simp add: trim_def ascii_def isWhiteSpace_def)
  have 3: "trim (ascii ''Paris.'') = ascii ''Paris.''"
    by (simp add: trim_def ascii_def isWhiteSpace_def)
  have 4: "\<not> containsMarker REASONING (ascii ''Paris.'')"
    by (simp add: REASONING_def ascii_def canonicalize_def)
  have 5: "\<not> containsMarker FINAL_ANSWER (ascii ''Paris.'')"
    by (simp add: FINAL_ANSWER_def ascii_def canonicalize_def)
  have 6: "ascii ''Both agree.'' \<noteq> []" "ascii ''Paris.'' \<noteq> []" by (simp_all add: ascii_def)
  show ?thesis
    using parseClaudeResponse_sections [of "ascii ''Both agree.''" "ascii ''Paris.''" "ascii ''Paris.''"]
      1 2 3 4 5 6 by simp
qed

text \<open>
  Claim C6 as stated fails: an empty \<open><r>\<close> gives the placeholder, not the empty
  reasoning; an \<open><r>\<close> that contains \<open>final answer:\<close> is cut there, and the final
  answer then starts inside \<open><r>\<close>; an empty \<open><a>\<close> gives the whole trimmed reply; and
  a reply without markers is trimmed, not returned raw.
\<close>

theorem parseClaudeResponse_counterexample:
  "ParsedResponse.reasoning (parseClaudeResponse (formattedReply [] (ascii ''Paris.''))) \<noteq> trim []
   \<and> ParsedResponse.reasoning (parseClaudeResponse (formattedReply (ascii ''So the final answer: Paris'') (ascii ''Paris.'')))
       \<noteq> trim (ascii ''So the final answer: Paris'')
   \<and> ParsedResponse.finalAnswer (parseClaudeResponse (formattedReply (ascii ''So the final answer: Paris'') (ascii ''Paris.'')))
       \<noteq> trim (ascii ''Paris.'')
   \<and> ParsedResponse.finalAnswer (parseClaudeResponse (formattedReply (ascii ''Both agree.'') [])) \<noteq> trim []
   \<and> \<not> containsMarker REASONING (ascii '' Paris.'')
   \<and> \<not> containsMarker FINAL_ANSWER (ascii '' Paris.'')
   \<and> ParsedResponse.finalAnswer (parseClaudeResponse (ascii '' Paris.'')) \<noteq> ascii '' Paris.''"
  by (simp add: parseClaudeResponse_def formattedReply_def ascii_def REASONING_def
      FINAL_ANSWER_def canonicalize_def isWhiteSpace_def trim_def orElse_def)

section \<open>Properties of the branch callers and the fan-out\<close>

lemma queryGemini_result:
  "queryGemini w q =
     (case settles (geminiInvoke w q) of
        Inl e \<Rightarrow> Inl (AgentError (ascii ''Failed to get response from Gemini'')
                    (captureStack w (ascii ''Failed to get response from Gemini''))
                    (ascii ''Gemini'') e)
      | Inr t \<Rightarrow> Inr (Some t, clockAfter (geminiInvoke w q) - clockBefore (geminiInvoke w q)),
      [GeminiInvoke q])"
  by (simp add: queryGemini_def newAgentError_def Let_def split: sum.splits)

lemma queryOpenAI_result:
  "(\<exists>e. queryOpenAI w q =
         (Inl (AgentError (ascii ''Failed to get response from OpenAI'')
                 (captureStack w (ascii ''Failed to get response from OpenAI''))
                 (ascii ''OpenAI'') e), [OpenAIInvoke q]))
   \<or> (\<exists>t. queryOpenAI w q =
         (Inr (t, clockAfter (openaiInvoke w q) - clockBefore (openaiInvoke w q)),
          [OpenAIInvoke q]))"
  by (simp add: queryOpenAI_def newAgentError_def Let_def split: sum.splits)

lemma queryOpenAI_rejected:
  "settles (openaiInvoke w q) = Inl e \<Longrightarrow>
   queryOpenAI w q =
     (Inl (AgentError (ascii ''Failed to get response from OpenAI'')
             (captureStack w (ascii ''Failed to get response from OpenAI''))
             (ascii ''OpenAI'') e), [OpenAIInvoke q])"
  by (simp add: queryOpenAI_def newAgentError_def Let_def)

text \<open>The state after the fan-out, field by field.\<close>

lemma runParallelAgents_gemini_failed:
  "fst (queryGemini w (AgentState.question st)) = Inl e \<Longrightarrow>
     AgentState.geminiError (fst (runParallelAgents w st))
       = Some (if instanceofError e then message e else ascii ''Unknown error'')
   \<and> AgentState.geminiResponse (fst (runParallelAgents w st)) = AgentState.geminiResponse st
   \<and> geminiTime (metadata (fst (runParallelAgents w st))) = geminiTime (metadata st)"
  by (simp add: runParallelAgents_def settled_def Let_def case_prod_beta split: sum.splits)

lemma runParallelAgents_gemini_replied:
  "fst (queryGemini w (AgentState.question st)) = Inr (t, ms) \<Longrightarrow>
     AgentState.geminiError (fst (runParallelAgents w st)) = AgentState.geminiError st
   \<and> AgentState.geminiResponse (fst (runParallelAgents w st)) = t
   \<and> geminiTime (metadata (fst (runParallelAgents w st))) = Some ms"
  by (simp add: runParallelAgents_def settled_def Let_def case_prod_beta split: sum.splits)

lemma runParallelAgents_openai_failed:
  "fst (queryOpenAI w (AgentState.question st)) = Inl e \<Longrightarrow>
     AgentState.openaiError (fst (runParallelAgents w st))
       = Some (if instanceofError e then message e else ascii ''Unknown error'')
   \<and> AgentState.openaiResponse (fst (runParallelAgents w st)) = AgentState.openaiResponse st
   \<and> openaiTime (metadata (fst (runParallelAgents w st))) = openaiTime (metadata st)"
  by (simp add: runParallelAgents_def settled_def Let_def case_prod_beta split: sum.splits)

lemma runParallelAgents_openai_replied:
  "fst (queryOpenAI w (AgentState.question st)) = Inr (t, ms) \<Longrightarrow>
     AgentState.openaiError (fst (runParallelAgents w st)) = AgentState.openaiError st
   \<and> AgentState.openaiResponse (fst (runParallelAgents w st)) = t
   \<and> openaiTime (metadata (fst (runParallelAgents w st))) = Some ms"
  by (simp add: runParallelAgents_def settled_def Let_def case_prod_beta split: sum.splits)

lemma runParallelAgents_other:
  "AgentState.question (fst (runParallelAgents w st)) = AgentState.question st"
  "AgentState.finalAnswer (fst (runParallelAgents w st)) = AgentState.finalAnswer st"
  "AgentState.reasoning (fst (runParallelAgents w st)) = AgentState.reasoning st"
  "claudeTime (metadata (fst (runParallelAgents w st))) = claudeTime (metadata st)"
  "totalTime (metadata (fst (runParallelAgents w st))) = totalTime (metadata st)"
  by (simp_all add: runParallelAgents_def settled_def Let_def case_prod_beta split: sum.splits)

lemma runParallelAgents_calls:
  "snd (runParallelAgents w st)
     = [GeminiInvoke (AgentState.question st), OpenAIInvoke (AgentState.question st)]"
  using queryOpenAI_result [of w "AgentState.question st"]
  by (auto simp add: runParallelAgents_def queryGemini_result Let_def case_prod_beta)

section \<open>Properties of the synthesis step and the request boundary\<close>

lemma runClaudeSynthesis_replied:
  assumes "settles (claudeInvoke w (buildSynthesisPrompt (synthesisInput st))) = Inr reply"
  shows "runClaudeSynthesis w st =
     (Inr (st
        \<lparr> AgentState.finalAnswer := Some (ParsedResponse.finalAnswer (parseClaudeResponse reply)),
          AgentState.reasoning := Some (ParsedResponse.reasoning (parseClaudeResponse reply)),
          metadata := (metadata st)
            \<lparr> claudeTime :=
                Some (clockAfter (claudeInvoke w (buildSynthesisPrompt (synthesisInput st)))
                      - clockBefore (claudeInvoke w (buildSynthesisPrompt (synthesisInput st)))),
              totalTime :=
                orZero (geminiTime (metadata st)) + orZero (openaiTime (metadata st))
                + (clockAfter (claudeInvoke w (buildSynthesisPrompt (synthesisInput st)))
                   - clockBefore (claudeInvoke w (buildSynthesisPrompt (synthesisInput st)))) \<rparr> \<rparr>),
      [ClaudeInvoke (buildSynthesisPrompt (synthesisInput st))])"
  using assms by (simp add: runClaudeSynthesis_def synthesizeResponses_def Let_def)

lemma runClaudeSynthesis_rejected:
  assumes "settles (claudeInvoke w (buildSynthesisPrompt (synthesisInput st))) = Inl e"
  shows "runClaudeSynthesis w st =
     (Inl (AgentError (ascii ''Failed to synthesize responses with Claude'')
             (captureStack w (ascii ''Failed to synthesize responses with Claude''))
             (ascii ''Claude'') e),
      [ClaudeInvoke (buildSynthesisPrompt (synthesisInput st))])"
  using assms by (simp add: runClaudeSynthesis_def synthesizeResponses_def newAgentError_def Let_def)

lemma executeAgentWorkflow_stages:
  "executeAgentWorkflow w q =
     (fst (runClaudeSynthesis w (stateAfterAgents w q)),
      [GeminiInvoke q, OpenAIInvoke q] @ snd (runClaudeSynthesis w (stateAfterAgents w q)))"
  by (simp add: executeAgentWorkflow_def stateAfterAgents_def case_prod_beta
      runParallelAgents_calls initialState_def)

lemma askQuestion_valid:
  assumes "trim s \<noteq> []"
  shows "askQuestion w (JString s) =
     (case fst (runClaudeSynthesis w (stateAfterAgents w (trim s))) of
        Inr result \<Rightarrow> (200, formatSuccessResponse result,
          [GeminiInvoke (trim s), OpenAIInvoke (trim s)]
            @ snd (runClaudeSynthesis w (stateAfterAgents w (trim s))))
      | Inl err \<Rightarrow> (500, formatErrorResponse err,
          [GeminiInvoke (trim s), OpenAIInvoke (trim s)]
            @ snd (runClaudeSynthesis w (stateAfterAgents w (trim s)))))"
proof -
  from assms have "s \<noteq> []" by (auto simp: trim_def)
  with assms show ?thesis
    by (simp add: askQuestion_def executeAgentWorkflow_stages split: sum.splits)
qed

lemma askQuestion_invalid:
  assumes "case v of JString s \<Rightarrow> trim s = [] | _ \<Rightarrow> True"
  shows "askQuestion w v =
     (400,
      \<lparr> success = False, data = None,
        ChatResponse.error = Some (ascii ''Question is required and must be a non-empty string''),
        details = captureStack w (ascii ''Question is required and must be a non-empty string'') \<rparr>,
      [])"
  using assms
  by (cases v) (simp_all add: askQuestion_def formatErrorResponse_def newError_def)

section \<open>Properties of the synthesis prompt\<close>

lemma buildSynthesisPrompt_gemini_text:
  assumes "truthy (SynthesisInput.geminiResponse input)"
  shows "sublist (ascii ''Gemini's Response:\<newline>'' @ the (SynthesisInput.geminiResponse input)
                   @ ascii ''\<newline>\<newline>'')
           (buildSynthesisPrompt input)"
proof -
  let ?after =
    "(if truthy (SynthesisInput.openaiResponse input)
      then ascii ''OpenAI's Response:\<newline>'' @ the (SynthesisInput.openaiResponse input)
             @ ascii ''\<newline>\<newline>''
      else if truthy (SynthesisInput.openaiError input)
      then ascii ''OpenAI's Response: [ERROR] '' @ the (SynthesisInput.openaiError input)
             @ ascii ''\<newline>\<newline>''
      else []) @ promptTask"
  have "buildSynthesisPrompt input =
      (promptOpening @ SynthesisInput.question input @ ascii ''\<newline>\<newline>'')
      @ (ascii ''Gemini's Response:\<newline>'' @ the (SynthesisInput.geminiResponse input)
           @ ascii ''\<newline>\<newline>'')
      @ ?after"
    using assms by (simp add: buildSynthesisPrompt_def Let_def)
  then show ?thesis by (simp only: sublist_appendI)
qed

lemma buildSynthesisPrompt_gemini_error:
  assumes "\<not> truthy (SynthesisInput.geminiResponse input)"
    and "truthy (SynthesisInput.geminiError input)"
  shows "sublist (ascii ''Gemini's Response: [ERROR] '' @ the (SynthesisInput.geminiError input)
                   @ ascii ''\<newline>\<newline>'')
           (buildSynthesisPrompt input)"
proof -
  let ?after =
    "(if truthy (SynthesisInput.openaiResponse input)
      then ascii ''OpenAI's Response:\<newline>'' @ the (SynthesisInput.openaiResponse input)
             @ ascii ''\<newline>\<newline>''
      else if truthy (SynthesisInput.openaiError input)
      then ascii ''OpenAI's Response: [ERROR] '' @ the (SynthesisInput.openaiError input)
             @ ascii ''\<newline>\<newline>''
      else []) @ promptTask"
  have "buildSynthesisPrompt input =
      (promptOpening @ SynthesisInput.question input @ ascii ''\<newline>\<newline>'')
      @ (ascii ''Gemini's Response: [ERROR] '' @ the (SynthesisInput.geminiError input)
           @ ascii ''\<newline>\<newline>'')
      @ ?after"
    using assms by (simp add: buildSynthesisPrompt_def Let_def)
  then show ?thesis by (simp only: sublist_appendI)
qed

lemma buildSynthesisPrompt_openai_text:
  assumes "truthy (SynthesisInput.openaiResponse input)"
  shows "sublist (ascii ''OpenAI's Response:\<newline>'' @ the (SynthesisInput.openaiResponse input)
                   @ ascii ''\<newline>\<newline>'')
           (buildSynthesisPrompt input)"
proof -
  let ?before =
    "promptOpening @ SynthesisInput.question input @ ascii ''\<newline>\<newline>''
     @ (if truthy (SynthesisInput.geminiResponse input)
        then ascii ''Gemini's Response:\<newline>'' @ the (SynthesisInput.geminiResponse input)
               @ ascii ''\<newline>\<newline>''
        else if truthy (SynthesisInput.geminiError input)
        then ascii ''Gemini's Response: [ERROR] '' @ the (SynthesisInput.geminiError input)
               @ ascii ''\<newline>\<newline>''
        else [])"
  have "buildSynthesisPrompt input =
      ?before
      @ (ascii ''OpenAI's Response:\<newline>'' @ the (SynthesisInput.openaiResponse input)
           @ ascii ''\<newline>\<newline>'')
      @ promptTask"
    using assms by (simp add: buildSynthesisPrompt_def Let_def)
  then show ?thesis by (simp only: sublist_appendI)
qed

lemma buildSynthesisPrompt_openai_error:
  assumes "\<not> truthy (SynthesisInput.openaiResponse input)"
    and "truthy (SynthesisInput.openaiError input)"
  shows "sublist (ascii ''OpenAI's Response: [ERROR] '' @ the (SynthesisInput.openaiError input)
                   @ ascii ''\<newline>\<newline>'')
           (buildSynthesisPrompt input)"
proof -
  let ?before =
    "promptOpening @ SynthesisInput.question input @ ascii ''\<newline>\<newline>''
     @ (if truthy (SynthesisInput.geminiResponse input)
        then ascii ''Gemini's Response:\<newline>'' @ the (SynthesisInput.geminiResponse input)
               @ ascii ''\<newline>\<newline>''
        else if truthy (SynthesisInput.geminiError input)
        then ascii ''Gemini's Response: [ERROR] '' @ the (SynthesisInput.geminiError input)
               @ ascii ''\<newline>\<newline>''
        else [])"
  have "buildSynthesisPrompt input =
      ?before
      @ (ascii ''OpenAI's Response: [ERROR] '' @ the (SynthesisInput.openaiError input)
           @ ascii ''\<newline>\<newline>'')
      @ promptTask"
    using assms by (simp add: buildSynthesisPrompt_def Let_def)
  then show ?thesis by (simp only: sublist_appendI)
qed

section \<open>Branch outcomes and the state after the fan-out\<close>

lemma geminiOutcome_failed:
  assumes "geminiOutcome w q = Inl e"
  shows "\<exists>orig. settles (geminiInvoke w q) = Inl orig \<and>
           e = AgentError (ascii ''Failed to get response from Gemini'')
                 (captureStack w (ascii ''Failed to get response from Gemini''))
                 (ascii ''Gemini'') orig"
  using assms by (auto simp: geminiOutcome_def queryGemini_result split: sum.splits)

lemma geminiOutcome_replied:
  assumes "geminiOutcome w q = Inr (t, ms)"
  shows "\<exists>reply. settles (geminiInvoke w q) = Inr reply \<and> t = Some reply \<and>
           ms = clockAfter (geminiInvoke w q) - clockBefore (geminiInvoke w q)"
  using assms by (auto simp: geminiOutcome_def queryGemini_result split: sum.splits)

lemma openaiOutcome_failed:
  assumes "openaiOutcome w q = Inl e"
  shows "\<exists>orig. e = AgentError (ascii ''Failed to get response from OpenAI'')
                 (captureStack w (ascii ''Failed to get response from OpenAI''))
                 (ascii ''OpenAI'') orig"
  using assms queryOpenAI_result [of w q] by (auto simp: openaiOutcome_def)

lemma openaiOutcome_replied:
  assumes "openaiOutcome w q = Inr (t, ms)"
  shows "ms = clockAfter (openaiInvoke w q) - clockBefore (openaiInvoke w q)"
  using assms queryOpenAI_result [of w q] by (auto simp: openaiOutcome_def)

lemma wrapper_messages_nonempty:
  "ascii ''Failed to get response from Gemini'' \<noteq> []"
  "ascii ''Failed to get response from OpenAI'' \<noteq> []"
  by (simp_all add: ascii_def)

lemma stateAfterAgents_gemini_failed:
  assumes "geminiOutcome w q = Inl e"
  shows "AgentState.geminiError (stateAfterAgents w q) = Some (ascii ''Failed to get response from Gemini'')"
    and "AgentState.geminiResponse (stateAfterAgents w q) = None"
    and "geminiTime (metadata (stateAfterAgents w q)) = None"
proof -
  from assms have q: "fst (queryGemini w (AgentState.question (initialState q))) = Inl e"
    by (simp add: geminiOutcome_def initialState_def)
  from geminiOutcome_failed [OF assms]
  have e: "instanceofError e" "message e = ascii ''Failed to get response from Gemini''" by auto
  from runParallelAgents_gemini_failed [OF q] e
  show "AgentState.geminiError (stateAfterAgents w q) = Some (ascii ''Failed to get response from Gemini'')"
    and "AgentState.geminiResponse (stateAfterAgents w q) = None"
    and "geminiTime (metadata (stateAfterAgents w q)) = None"
    by (simp_all add: stateAfterAgents_def initialState_def)
qed

lemma stateAfterAgents_gemini_replied:
  assumes "geminiOutcome w q = Inr (t, ms)"
  shows "AgentState.geminiError (stateAfterAgents w q) = None"
    and "AgentState.geminiResponse (stateAfterAgents w q) = t"
    and "geminiTime (metadata (stateAfterAgents w q)) = Some ms"
proof -
  from assms have q: "fst (queryGemini w (AgentState.question (initialState q))) = Inr (t, ms)"
    by (simp add: geminiOutcome_def initialState_def)
  from runParallelAgents_gemini_replied [OF q]
  show "AgentState.geminiError (stateAfterAgents w q) = None"
    and "AgentState.geminiResponse (stateAfterAgents w q) = t"
    and "geminiTime (metadata (stateAfterAgents w q)) = Some ms"
    by (simp_all add: stateAfterAgents_def initialState_def)
qed

lemma stateAfterAgents_openai_failed:
  assumes "openaiOutcome w q = Inl e"
  shows "AgentState.openaiError (stateAfterAgents w q) = Some (ascii ''Failed to get response from OpenAI'')"
    and "AgentState.openaiResponse (stateAfterAgents w q) = None"
    and "openaiTime (metadata (stateAfterAgents w q)) = None"
proof -
  from assms have q: "fst (queryOpenAI w (AgentState.question (initialState q))) = Inl e"
    by (simp add: openaiOutcome_def initialState_def)
  from openaiOutcome_failed [OF assms]
  have e: "instanceofError e" "message e = ascii ''Failed to get response from OpenAI''" by auto
  from runParallelAgents_openai_failed [OF q] e
  show "AgentState.openaiError (stateAfterAgents w q) = Some (ascii ''Failed to get response from OpenAI'')"
    and "AgentState.openaiResponse (stateAfterAgents w q) = None"
    and "openaiTime (metadata (stateAfterAgents w q)) = None"
    by (simp_all add: stateAfterAgents_def initialState_def)
qed

lemma stateAfterAgents_openai_replied:
  assumes "openaiOutcome w q = Inr (t, ms)"
  shows "AgentState.openaiError (stateAfterAgents w q) = None"
    and "AgentState.openaiResponse (stateAfterAgents w q) = t"
    and "openaiTime (metadata (stateAfterAgents w q)) = Some ms"
proof -
  from assms have q: "fst (queryOpenAI w (AgentState.question (initialState q))) = Inr (t, ms)"
    by (simp add: openaiOutcome_def initialState_def)
  from runParallelAgents_openai_replied [OF q]
  show "AgentState.openaiError (stateAfterAgents w q) = None"
    and "AgentState.openaiResponse (stateAfterAgents w q) = t"
    and "openaiTime (metadata (stateAfterAgents w q)) = Some ms"
    by (simp_all add: stateAfterAgents_def initialState_def)
qed

text \<open>The response of a completed workflow, in terms of the state after the fan-out.\<close>

lemma askQuestion_completed:
  assumes "trim s \<noteq> []"
    and "settles (claudeInvoke w (synthesisPrompt w (trim s))) = Inr reply"
  shows "\<exists>d. askQuestion w (JString s) =
           (200, \<lparr> success = True, data = Some d, ChatResponse.error = None, details = None \<rparr>,
            [GeminiInvoke (trim s), OpenAIInvoke (trim s), ClaudeInvoke (synthesisPrompt w (trim s))])
         \<and> response (gemini (agents d))
             = orElse (AgentState.geminiResponse (stateAfterAgents w (trim s))) []
         \<and> AgentResponse.error (gemini (agents d))
             = (if truthy (AgentState.geminiError (stateAfterAgents w (trim s)))
                then AgentState.geminiError (stateAfterAgents w (trim s)) else None)
         \<and> AgentResponse.processingTime (gemini (agents d))
             = orZero (geminiTime (metadata (stateAfterAgents w (trim s))))
         \<and> response (openai (agents d))
             = orElse (AgentState.openaiResponse (stateAfterAgents w (trim s))) []
         \<and> AgentResponse.error (openai (agents d))
             = (if truthy (AgentState.openaiError (stateAfterAgents w (trim s)))
                then AgentState.openaiError (stateAfterAgents w (trim s)) else None)
         \<and> AgentResponse.processingTime (openai (agents d))
             = orZero (openaiTime (metadata (stateAfterAgents w (trim s))))
         \<and> ClaudeResponse.processingTime (claude (agents d))
             = orZero (Some (clockAfter (claudeInvoke w (synthesisPrompt w (trim s)))
                 - clockBefore (claudeInvoke w (synthesisPrompt w (trim s)))))
         \<and> totalProcessingTime d
             = orZero (geminiTime (metadata (stateAfterAgents w (trim s))))
               + orZero (openaiTime (metadata (stateAfterAgents w (trim s))))
               + (clockAfter (claudeInvoke w (synthesisPrompt w (trim s)))
                  - clockBefore (claudeInvoke w (synthesisPrompt w (trim s))))"
proof -
  from assms(2) have
    "settles (claudeInvoke w (buildSynthesisPrompt (synthesisInput (stateAfterAgents w (trim s)))))
       = Inr reply"
    by (simp add: synthesisPrompt_def)
  from runClaudeSynthesis_replied [OF this] assms(1) show ?thesis
    by (simp add: askQuestion_valid formatSuccessResponse_def synthesisPrompt_def Let_def)
qed

lemma askQuestion_synthesis_failed:
  assumes "trim s \<noteq> []"
    and "settles (claudeInvoke w (synthesisPrompt w (trim s))) = Inl e"
  shows "askQuestion w (JString s) =
           (500,
            \<lparr> success = False, data = None,
              ChatResponse.error = Some (ascii ''Failed to synthesize responses with Claude''),
              details = captureStack w (ascii ''Failed to synthesize responses with Claude'') \<rparr>,
            [GeminiInvoke (trim s), OpenAIInvoke (trim s), ClaudeInvoke (synthesisPrompt w (trim s))])"
proof -
  from assms(2) have
    "settles (claudeInvoke w (buildSynthesisPrompt (synthesisInput (stateAfterAgents w (trim s)))))
       = Inl e"
    by (simp add: synthesisPrompt_def)
  from runClaudeSynthesis_rejected [OF this] assms(1) show ?thesis
    by (simp add: askQuestion_valid formatErrorResponse_def synthesisPrompt_def Let_def)
qed

section \<open>The claims about the workflow\<close>

lemma orZero_Some: "orZero (Some n) = n"
  by (simp add: orZero_def)

lemma capital_trimmed: "trim capital = capital" "capital \<noteq> []"
  by (simp_all add: capital_def trim_def ascii_def isWhiteSpace_def)

text \<open>
  Claim C2. In every run in which both branches succeed and the synthesis succeeds, the
  reported \<open>totalProcessingTime\<close> is the elapsed time of branch A plus that of branch B
  plus that of the synthesis: each term is the difference of the two clock readings of its
  own call, each is also the time reported for its own agent, and each occurs once.
\<close>

theorem totalProcessingTime_is_sum:
  assumes "trim s \<noteq> []"
    and "geminiOutcome w (trim s) = Inr (ta, ma)"
    and "openaiOutcome w (trim s) = Inr (tb, mb)"
    and "settles (claudeInvoke w (synthesisPrompt w (trim s))) = Inr reply"
  shows "\<exists>d calls.
      askQuestion w (JString s)
        = (200, \<lparr> success = True, data = Some d, ChatResponse.error = None, details = None \<rparr>,
           calls)
      \<and> totalProcessingTime d
          = ma + mb
            + (clockAfter (claudeInvoke w (synthesisPrompt w (trim s)))
               - clockBefore (claudeInvoke w (synthesisPrompt w (trim s))))
      \<and> ma = clockAfter (geminiInvoke w (trim s)) - clockBefore (geminiInvoke w (trim s))
      \<and> mb = clockAfter (openaiInvoke w (trim s)) - clockBefore (openaiInvoke w (trim s))
      \<and> AgentResponse.processingTime (gemini (agents d)) = ma
      \<and> AgentResponse.processingTime (openai (agents d)) = mb
      \<and> ClaudeResponse.processingTime (claude (agents d))
          = clockAfter (claudeInvoke w (synthesisPrompt w (trim s)))
            - clockBefore (claudeInvoke w (synthesisPrompt w (trim s)))"
proof -
  from askQuestion_completed [OF assms(1) assms(4)] obtain d where d:
    "askQuestion w (JString s)
       = (200, \<lparr> success = True, data = Some d, ChatResponse.error = None, details = None \<rparr>,
          [GeminiInvoke (trim s), OpenAIInvoke (trim s), ClaudeInvoke (synthesisPrompt w (trim s))])"
    "AgentResponse.processingTime (gemini (agents d))
       = orZero (geminiTime (metadata (stateAfterAgents w (trim s))))"
    "AgentResponse.processingTime (openai (agents d))
       = orZero (openaiTime (metadata (stateAfterAgents w (trim s))))"
    "ClaudeResponse.processingTime (claude (agents d))
       = orZero (Some (clockAfter (claudeInvoke w (synthesisPrompt w (trim s)))
           - clockBefore (claudeInvoke w (synthesisPrompt w (trim s)))))"
    "totalProcessingTime d
       = orZero (geminiTime (metadata (stateAfterAgents w (trim s))))
         + orZero (openaiTime (metadata (stateAfterAgents w (trim s))))
         + (clockAfter (claudeInvoke w (synthesisPrompt w (trim s)))
            - clockBefore (claudeInvoke w (synthesisPrompt w (trim s))))"
    by blast
  have ga: "geminiTime (metadata (stateAfterAgents w (trim s))) = Some ma"
    by (rule stateAfterAgents_gemini_replied [OF assms(2)])
  have gb: "openaiTime (metadata (stateAfterAgents w (trim s))) = Some mb"
    by (rule stateAfterAgents_openai_replied [OF assms(3)])
  have ma: "ma = clockAfter (geminiInvoke w (trim s)) - clockBefore (geminiInvoke w (trim s))"
    using geminiOutcome_replied [OF assms(2)] by blast
  have mb: "mb = clockAfter (openaiInvoke w (trim s)) - clockBefore (openaiInvoke w (trim s))"
    by (rule openaiOutcome_replied [OF assms(3)])
  from d ga gb ma mb show ?thesis by (simp add: orZero_Some)
qed

text \<open>The example of the specification: 100 ms, 150 ms and 50 ms give 300 ms.\<close>

theorem totalProcessingTime_is_sum_witness:
  "\<exists>d calls.
      askQuestion (scenario geminiParis openaiParis claudeParis) (JString capital)
        = (200, \<lparr> success = True, data = Some d, ChatResponse.error = None, details = None \<rparr>,
           calls)
      \<and> totalProcessingTime d = 100 + 150 + 50
      \<and> AgentResponse.processingTime (gemini (agents d)) = 100
      \<and> AgentResponse.processingTime (openai (agents d)) = 150
      \<and> ClaudeResponse.processingTime (claude (agents d)) = 50"
proof -
  let ?W = "scenario geminiParis openaiParis claudeParis"
  have 1: "trim capital \<noteq> []" by (simp add: capital_trimmed)
  have 2: "geminiOutcome ?W (trim capital) = Inr (Some (ascii ''Paris''), 100)"
    by (simp add: geminiOutcome_def queryGemini_def scenario_def geminiParis_def)
  have 3: "openaiOutcome ?W (trim capital) = Inr (Some (ascii ''Paris, France''), 150)"
    by (simp add: openaiOutcome_def queryOpenAI_def firstText_def scenario_def openaiParis_def)
  have 4: "settles (claudeInvoke ?W (synthesisPrompt ?W (trim capital)))
             = Inr (formattedReply (ascii ''Both agree.'') (ascii ''Paris.''))"
    by (simp add: scenario_def claudeParis_def)
  from totalProcessingTime_is_sum [OF 1 2 3 4] show ?thesis
    by (simp add: scenario_def claudeParis_def capital_trimmed; blast)
qed

lemma textOf_orElse: "orElse x [] = textOf x"
  by (simp add: orElse_def textOf_def split: option.splits)

text \<open>
  Claim C1 as stated fails: a branch that succeeded with the empty text (Gemini answering
  \<open>''\<close>) or with no text (OpenAI answering with a string as content, whose first
  character has no \<open>text\<close>) is reported with the empty \<open>response\<close> and no
  \<open>error\<close>, as \<open>x || ''\<close> gives; its response text is not set.
\<close>

theorem succeeded_branch_empty_response_counterexample:
  "geminiOutcome (scenario geminiEmpty openaiString claudeParis) capital = Inr (Some [], 100)
   \<and> openaiOutcome (scenario geminiEmpty openaiString claudeParis) capital = Inr (None, 150)
   \<and> fst (askQuestion (scenario geminiEmpty openaiString claudeParis) (JString capital)) = 200
   \<and> map_option (response \<circ> gemini \<circ> agents)
       (data (fst (snd (askQuestion (scenario geminiEmpty openaiString claudeParis)
          (JString capital))))) = Some []
   \<and> map_option (AgentResponse.error \<circ> gemini \<circ> agents)
       (data (fst (snd (askQuestion (scenario geminiEmpty openaiString claudeParis)
          (JString capital))))) = Some None
   \<and> map_option (response \<circ> openai \<circ> agents)
       (data (fst (snd (askQuestion (scenario geminiEmpty openaiString claudeParis)
          (JString capital))))) = Some []
   \<and> map_option (AgentResponse.error \<circ> openai \<circ> agents)
       (data (fst (snd (askQuestion (scenario geminiEmpty openaiString claudeParis)
          (JString capital))))) = Some None"
proof -
  let ?W = "scenario geminiEmpty openaiString claudeParis"
  have 1: "trim capital \<noteq> []" by (simp add: capital_trimmed)
  have 2: "settles (claudeInvoke ?W (synthesisPrompt ?W (trim capital)))
             = Inr (formattedReply (ascii ''Both agree.'') (ascii ''Paris.''))"
    by (simp add: scenario_def claudeParis_def)
  have 3: "geminiOutcome ?W capital = Inr (Some [], 100)"
    by (simp add: geminiOutcome_def queryGemini_def scenario_def geminiEmpty_def)
  have 4: "openaiOutcome ?W capital = Inr (None, 150)"
    by (simp add: openaiOutcome_def queryOpenAI_def firstText_def scenario_def openaiString_def
        ascii_def)
  from askQuestion_completed [OF 1 2] obtain d where d:
    "askQuestion ?W (JString capital)
       = (200, \<lparr> success = True, data = Some d, ChatResponse.error = None, details = None \<rparr>,
          [GeminiInvoke (trim capital), OpenAIInvoke (trim capital),
           ClaudeInvoke (synthesisPrompt ?W (trim capital))])"
    "response (gemini (agents d))
       = orElse (AgentState.geminiResponse (stateAfterAgents ?W (trim capital))) []"
    "AgentResponse.error (gemini (agents d))
       = (if truthy (AgentState.geminiError (stateAfterAgents ?W (trim capital)))
          then AgentState.geminiError (stateAfterAgents ?W (trim capital)) else None)"
    "response (openai (agents d))
       = orElse (AgentState.openaiResponse (stateAfterAgents ?W (trim capital))) []"
    "AgentResponse.error (openai (agents d))
       = (if truthy (AgentState.openaiError (stateAfterAgents ?W (trim capital)))
          then AgentState.openaiError (stateAfterAgents ?W (trim capital)) else None)"
    by blast
  from d(2-5) stateAfterAgents_gemini_replied [OF 3] stateAfterAgents_openai_replied [OF 4]
  have "response (gemini (agents d)) = []" "AgentResponse.error (gemini (agents d)) = None"
    "response (openai (agents d)) = []" "AgentResponse.error (openai (agents d)) = None"
    by (simp_all add: capital_trimmed orElse_def truthy_def)
  with d(1) 3 4 show ?thesis by simp
qed

text \<open>
  Claim C1, as the code has it. When exactly one branch fails and the synthesis call
  succeeds, the request is answered with status 200 and \<open>success = true\<close>. In every
  completed workflow, for each branch: the \<open>error\<close> field is present exactly when the
  branch failed; then the \<open>response\<close> text is empty; a branch that succeeded has no
  \<open>error\<close>, and its \<open>response\<close> is the text it returned, set (not empty) when that
  text is not empty and empty when the branch returned the empty text or none; the two are
  never both populated.
\<close>

theorem branch_fields_exclusive:
  "(trim s \<noteq> []
      \<and> isl (geminiOutcome w (trim s)) \<noteq> isl (openaiOutcome w (trim s))
      \<and> settles (claudeInvoke w (synthesisPrompt w (trim s))) = Inr reply
    \<longrightarrow> fst (askQuestion w (JString s)) = 200
        \<and> success (fst (snd (askQuestion w (JString s)))))
   \<and> (trim s \<noteq> [] \<and> settles (claudeInvoke w (synthesisPrompt w (trim s))) = Inr reply
    \<longrightarrow> (\<exists>d calls.
          askQuestion w (JString s)
            = (200, \<lparr> success = True, data = Some d, ChatResponse.error = None, details = None \<rparr>,
               calls)
          \<and> (AgentResponse.error (gemini (agents d)) \<noteq> None \<longleftrightarrow> isl (geminiOutcome w (trim s)))
          \<and> (isl (geminiOutcome w (trim s)) \<longrightarrow> response (gemini (agents d)) = [])
          \<and> (\<forall>t ms. geminiOutcome w (trim s) = Inr (t, ms) \<longrightarrow>
                response (gemini (agents d)) = textOf t
                \<and> AgentResponse.error (gemini (agents d)) = None)
          \<and> (\<forall>x ms. geminiOutcome w (trim s) = Inr (Some x, ms) \<and> x \<noteq> [] \<longrightarrow>
                response (gemini (agents d)) = x \<and> response (gemini (agents d)) \<noteq> [])
          \<and> \<not> (response (gemini (agents d)) \<noteq> []
                 \<and> AgentResponse.error (gemini (agents d)) \<noteq> None)
          \<and> (AgentResponse.error (openai (agents d)) \<noteq> None \<longleftrightarrow> isl (openaiOutcome w (trim s)))
          \<and> (isl (openaiOutcome w (trim s)) \<longrightarrow> response (openai (agents d)) = [])
          \<and> (\<forall>t ms. openaiOutcome w (trim s) = Inr (t, ms) \<longrightarrow>
                response (openai (agents d)) = textOf t
                \<and> AgentResponse.error (openai (agents d)) = None)
          \<and> (\<forall>x ms. openaiOutcome w (trim s) = Inr (Some x, ms) \<and> x \<noteq> [] \<longrightarrow>
                response (openai (agents d)) = x \<and> response (openai (agents d)) \<noteq> [])
          \<and> \<not> (response (openai (agents d)) \<noteq> []
                 \<and> AgentResponse.error (openai (agents d)) \<noteq> None)))"
proof (intro conjI impI)
  assume a: "trim s \<noteq> [] \<and> settles (claudeInvoke w (synthesisPrompt w (trim s))) = Inr reply"
  then have v: "trim s \<noteq> []"
    and c: "settles (claudeInvoke w (synthesisPrompt w (trim s))) = Inr reply" by simp_all
  from askQuestion_completed [OF v c] obtain d where d:
    "askQuestion w (JString s)
       = (200, \<lparr> success = True, data = Some d, ChatResponse.error = None, details = None \<rparr>,
          [GeminiInvoke (trim s), OpenAIInvoke (trim s), ClaudeInvoke (synthesisPrompt w (trim s))])"
    "response (gemini (agents d))
       = orElse (AgentState.geminiResponse (stateAfterAgents w (trim s))) []"
    "AgentResponse.error (gemini (agents d))
       = (if truthy (AgentState.geminiError (stateAfterAgents w (trim s)))
          then AgentState.geminiError (stateAfterAgents w (trim s)) else None)"
    "response (openai (agents d))
       = orElse (AgentState.openaiResponse (stateAfterAgents w (trim s))) []"
    "AgentResponse.error (openai (agents d))
       = (if truthy (AgentState.openaiError (stateAfterAgents w (trim s)))
          then AgentState.openaiError (stateAfterAgents w (trim s)) else None)"
    by blast
  have g: "(AgentResponse.error (gemini (agents d)) \<noteq> None \<longleftrightarrow> isl (geminiOutcome w (trim s)))
      \<and> (isl (geminiOutcome w (trim s)) \<longrightarrow> response (gemini (agents d)) = [])
      \<and> (\<forall>t ms. geminiOutcome w (trim s) = Inr (t, ms) \<longrightarrow>
            response (gemini (agents d)) = textOf t
            \<and> AgentResponse.error (gemini (agents d)) = None)
      \<and> (\<forall>x ms. geminiOutcome w (trim s) = Inr (Some x, ms) \<and> x \<noteq> [] \<longrightarrow>
            response (gemini (agents d)) = x \<and> response (gemini (agents d)) \<noteq> [])"
  proof (cases "geminiOutcome w (trim s)")
    case (Inl e)
    from stateAfterAgents_gemini_failed [OF Inl] d(2,3) Inl show ?thesis
      by (simp add: truthy_def orElse_def wrapper_messages_nonempty)
  next
    case (Inr r)
    obtain t ms where r: "r = (t, ms)" by (cases r)
    from stateAfterAgents_gemini_replied [OF Inr [unfolded r]] d(2,3) Inr r show ?thesis
      by (simp add: truthy_def textOf_orElse textOf_def)
  qed
  have o: "(AgentResponse.error (openai (agents d)) \<noteq> None \<longleftrightarrow> isl (openaiOutcome w (trim s)))
      \<and> (isl (openaiOutcome w (trim s)) \<longrightarrow> response (openai (agents d)) = [])
      \<and> (\<forall>t ms. openaiOutcome w (trim s) = Inr (t, ms) \<longrightarrow>
            response (openai (agents d)) = textOf t
            \<and> AgentResponse.error (openai (agents d)) = None)
      \<and> (\<forall>x ms. openaiOutcome w (trim s) = Inr (Some x, ms) \<and> x \<noteq> [] \<longrightarrow>
            response (openai (agents d)) = x \<and> response (openai (agents d)) \<noteq> [])"
  proof (cases "openaiOutcome w (trim s)")
    case (Inl e)
    from stateAfterAgents_openai_failed [OF Inl] d(4,5) Inl show ?thesis
      by (simp add: truthy_def orElse_def wrapper_messages_nonempty)
  next
    case (Inr r)
    obtain t ms where r: "r = (t, ms)" by (cases r)
    from stateAfterAgents_openai_replied [OF Inr [unfolded r]] d(4,5) Inr r show ?thesis
      by (simp add: truthy_def textOf_orElse textOf_def)
  qed
  from d(1) g o show "\<exists>d calls.
          askQuestion w (JString s)
            = (200, \<lparr> success = True, data = Some d, ChatResponse.error = None, details = None \<rparr>,
               calls)
          \<and> (AgentResponse.error (gemini (agents d)) \<noteq> None \<longleftrightarrow> isl (geminiOutcome w (trim s)))
          \<and> (isl (geminiOutcome w (trim s)) \<longrightarrow> response (gemini (agents d)) = [])
          \<and> (\<forall>t ms. geminiOutcome w (trim s) = Inr (t, ms) \<longrightarrow>
                response (gemini (agents d)) = textOf t
                \<and> AgentResponse.error (gemini (agents d)) = None)
          \<and> (\<forall>x ms. geminiOutcome w (trim s) = Inr (Some x, ms) \<and> x \<noteq> [] \<longrightarrow>
                response (gemini (agents d)) = x \<and> response (gemini (agents d)) \<noteq> [])
          \<and> \<not> (response (gemini (agents d)) \<noteq> []
                 \<and> AgentResponse.error (gemini (agents d)) \<noteq> None)
          \<and> (AgentResponse.error (openai (agents d)) \<noteq> None \<longleftrightarrow> isl (openaiOutcome w (trim s)))
          \<and> (isl (openaiOutcome w (trim s)) \<longrightarrow> response (openai (agents d)) = [])
          \<and> (\<forall>t ms. openaiOutcome w (trim s) = Inr (t, ms) \<longrightarrow>
                response (openai (agents d)) = textOf t
                \<and> AgentResponse.error (openai (agents d)) = None)
          \<and> (\<forall>x ms. openaiOutcome w (trim s) = Inr (Some x, ms) \<and> x \<noteq> [] \<longrightarrow>
                response (openai (agents d)) = x \<and> response (openai (agents d)) \<noteq> [])
          \<and> \<not> (response (openai (agents d)) \<noteq> []
                 \<and> AgentResponse.error (openai (agents d)) \<noteq> None)"
    by blast
next
  assume a: "trim s \<noteq> []
      \<and> isl (geminiOutcome w (trim s)) \<noteq> isl (openaiOutcome w (trim s))
      \<and> settles (claudeInvoke w (synthesisPrompt w (trim s))) = Inr reply"
  then have v: "trim s \<noteq> []"
    and c: "settles (claudeInvoke w (synthesisPrompt w (trim s))) = Inr reply" by simp_all
  from askQuestion_completed [OF v c]
  show "fst (askQuestion w (JString s)) = 200" by auto
  from askQuestion_completed [OF v c]
  show "success (fst (snd (askQuestion w (JString s))))" by auto
qed

text \<open>An instance: Gemini is unreachable, OpenAI and Claude answer.\<close>

theorem branch_fields_exclusive_witness:
  "fst (askQuestion (scenario geminiDown openaiParis claudeParis) (JString capital)) = 200
   \<and> success (fst (snd (askQuestion (scenario geminiDown openaiParis claudeParis) (JString capital))))
   \<and> (\<exists>d calls.
        askQuestion (scenario geminiDown openaiParis claudeParis) (JString capital)
          = (200, \<lparr> success = True, data = Some d, ChatResponse.error = None, details = None \<rparr>,
             calls)
        \<and> AgentResponse.error (gemini (agents d)) \<noteq> None
        \<and> response (gemini (agents d)) = []
        \<and> response (openai (agents d)) = ascii ''Paris, France''
        \<and> AgentResponse.error (openai (agents d)) = None)"
proof -
  let ?W = "scenario geminiDown openaiParis claudeParis"
  have 1: "trim capital \<noteq> []" by (simp add: capital_trimmed)
  have 2: "isl (geminiOutcome ?W (trim capital))"
    by (simp add: geminiOutcome_def queryGemini_def scenario_def geminiDown_def)
  have 3: "openaiOutcome ?W (trim capital) = Inr (Some (ascii ''Paris, France''), 150)"
    by (simp add: openaiOutcome_def queryOpenAI_def firstText_def scenario_def openaiParis_def)
  have 4: "settles (claudeInvoke ?W (synthesisPrompt ?W (trim capital)))
             = Inr (formattedReply (ascii ''Both agree.'') (ascii ''Paris.''))"
    by (simp add: scenario_def claudeParis_def)
  from branch_fields_exclusive
         [of capital ?W "formattedReply (ascii ''Both agree.'') (ascii ''Paris.'')"] 1 2 3 4
  show ?thesis
    by (simp add: capital_trimmed textOf_def; blast)
qed

text \<open>
  Claim C9. A request whose question is missing, is not a string, or is empty after trimming
  is answered with status 400 and an error response, and causes no remote call: neither a
  branch call nor a synthesis call.
\<close>

theorem invalid_question_makes_no_call:
  assumes "case v of JString s \<Rightarrow> trim s = [] | _ \<Rightarrow> True"
  shows "\<exists>resp. askQuestion w v = (400, resp, [])
           \<and> \<not> success resp \<and> data resp = None
           \<and> ChatResponse.error resp
               = Some (ascii ''Question is required and must be a non-empty string'')"
  using askQuestion_invalid [OF assms, of w] by simp

text \<open>Instances: a question of three spaces, and a request without a question.\<close>

theorem invalid_question_makes_no_call_witness:
  "(\<exists>resp. askQuestion (scenario geminiParis openaiParis claudeParis) (JString (ascii ''   ''))
             = (400, resp, [])
           \<and> \<not> success resp \<and> data resp = None
           \<and> ChatResponse.error resp
               = Some (ascii ''Question is required and must be a non-empty string''))
   \<and> (\<exists>resp. askQuestion (scenario geminiParis openaiParis claudeParis) JUndefined
             = (400, resp, [])
           \<and> \<not> success resp \<and> data resp = None
           \<and> ChatResponse.error resp
               = Some (ascii ''Question is required and must be a non-empty string''))"
proof -
  have 1: "case JString (ascii ''   '') of JString s \<Rightarrow> trim s = [] | _ \<Rightarrow> True"
    by (simp add: trim_def ascii_def isWhiteSpace_def)
  have 2: "case JUndefined of JString s \<Rightarrow> trim s = [] | _ \<Rightarrow> True" by simp
  from invalid_question_makes_no_call [OF 1] invalid_question_makes_no_call [OF 2]
  show ?thesis by blast
qed

text \<open>
  Claim C8. When the synthesis remote call fails, whatever the branches did, the response
  has \<open>success = false\<close> and no \<open>data\<close>; the error that \<open>synthesizeResponses\<close>
  throws is the one the workflow throws, its message is the \<open>error\<close> of the response,
  and its stack appears only as \<open>details\<close>.
\<close>

theorem synthesis_failure_fails_workflow:
  assumes "trim s \<noteq> []"
    and "settles (claudeInvoke w (synthesisPrompt w (trim s))) = Inl e"
  shows "\<exists>err calls.
      fst (synthesizeResponses w (synthesisInput (stateAfterAgents w (trim s)))) = Inl err
      \<and> fst (executeAgentWorkflow w (trim s)) = Inl err
      \<and> message err = ascii ''Failed to synthesize responses with Claude''
      \<and> askQuestion w (JString s)
          = (500,
             \<lparr> success = False, data = None, ChatResponse.error = Some (message err),
               details = stack err \<rparr>,
             calls)"
proof -
  let ?err = "AgentError (ascii ''Failed to synthesize responses with Claude'')
                (captureStack w (ascii ''Failed to synthesize responses with Claude''))
                (ascii ''Claude'') e"
  from assms(2) have c:
    "settles (claudeInvoke w (buildSynthesisPrompt (synthesisInput (stateAfterAgents w (trim s)))))
       = Inl e"
    by (simp add: synthesisPrompt_def)
  then have "fst (synthesizeResponses w (synthesisInput (stateAfterAgents w (trim s)))) = Inl ?err"
    by (simp add: synthesizeResponses_def newAgentError_def Let_def)
  moreover have "fst (executeAgentWorkflow w (trim s)) = Inl ?err"
    by (simp add: executeAgentWorkflow_stages runClaudeSynthesis_rejected [OF c])
  moreover have "askQuestion w (JString s)
          = (500,
             \<lparr> success = False, data = None, ChatResponse.error = Some (message ?err),
               details = stack ?err \<rparr>,
             [GeminiInvoke (trim s), OpenAIInvoke (trim s), ClaudeInvoke (synthesisPrompt w (trim s))])"
    using askQuestion_synthesis_failed [OF assms] by simp
  ultimately show ?thesis by (intro exI [of _ ?err] exI conjI) simp_all
qed

text \<open>An instance in which both branches succeeded and Claude is unreachable.\<close>

theorem synthesis_failure_fails_workflow_witness:
  "geminiOutcome (scenario geminiParis openaiParis claudeDown) capital
     = Inr (Some (ascii ''Paris''), 100)
   \<and> openaiOutcome (scenario geminiParis openaiParis claudeDown) capital
     = Inr (Some (ascii ''Paris, France''), 150)
   \<and> (\<exists>calls. askQuestion (scenario geminiParis openaiParis claudeDown) (JString capital)
          = (500,
             \<lparr> success = False, data = None,
               ChatResponse.error = Some (ascii ''Failed to synthesize responses with Claude''),
               details = None \<rparr>,
             calls))"
proof -
  let ?W = "scenario geminiParis openaiParis claudeDown"
  have 1: "trim capital \<noteq> []" by (simp add: capital_trimmed)
  have 2: "settles (claudeInvoke ?W (synthesisPrompt ?W (trim capital)))
             = Inl (JsError (ascii ''overloaded'') None)"
    by (simp add: scenario_def claudeDown_def)
  have 3: "geminiOutcome ?W capital = Inr (Some (ascii ''Paris''), 100)"
    by (simp add: geminiOutcome_def queryGemini_def scenario_def geminiParis_def)
  have 4: "openaiOutcome ?W capital = Inr (Some (ascii ''Paris, France''), 150)"
    by (simp add: openaiOutcome_def queryOpenAI_def firstText_def scenario_def openaiParis_def)
  from synthesis_failure_fails_workflow [OF 1 2] obtain err calls where
    "message err = ascii ''Failed to synthesize responses with Claude''"
    "fst (synthesizeResponses ?W (synthesisInput (stateAfterAgents ?W (trim capital)))) = Inl err"
    "askQuestion ?W (JString capital)
       = (500, \<lparr> success = False, data = None, ChatResponse.error = Some (message err),
                 details = stack err \<rparr>, calls)"
    by blast
  moreover from this(2) have "stack err = None"
    by (auto simp: synthesizeResponses_def newAgentError_def scenario_def claudeDown_def Let_def)
  ultimately show ?thesis using 3 4 by auto
qed

text \<open>
  Claim C10. When the remote call of a branch is rejected, the \<open>error\<close> reported for
  that branch is the fixed message of its caller, whatever the message of the underlying
  error; the underlying error is kept only as \<open>originalError\<close> of the thrown wrapper.
\<close>

theorem branch_error_is_wrapper_message:
  assumes "trim s \<noteq> []"
    and "settles (claudeInvoke w (synthesisPrompt w (trim s))) = Inr reply"
  shows "\<exists>d calls.
      askQuestion w (JString s)
        = (200, \<lparr> success = True, data = Some d, ChatResponse.error = None, details = None \<rparr>,
           calls)
      \<and> (\<forall>e. settles (geminiInvoke w (trim s)) = Inl e \<longrightarrow>
            AgentResponse.error (gemini (agents d))
              = Some (ascii ''Failed to get response from Gemini'')
            \<and> (message e \<noteq> ascii ''Failed to get response from Gemini'' \<longrightarrow>
                 AgentResponse.error (gemini (agents d)) \<noteq> Some (message e))
            \<and> (\<exists>err. fst (queryGemini w (trim s)) = Inl err \<and> originalError err = e))
      \<and> (\<forall>e. settles (openaiInvoke w (trim s)) = Inl e \<longrightarrow>
            AgentResponse.error (openai (agents d))
              = Some (ascii ''Failed to get response from OpenAI'')
            \<and> (message e \<noteq> ascii ''Failed to get response from OpenAI'' \<longrightarrow>
                 AgentResponse.error (openai (agents d)) \<noteq> Some (message e))
            \<and> (\<exists>err. fst (queryOpenAI w (trim s)) = Inl err \<and> originalError err = e))"
proof -
  from askQuestion_completed [OF assms] obtain d where d:
    "askQuestion w (JString s)
       = (200, \<lparr> success = True, data = Some d, ChatResponse.error = None, details = None \<rparr>,
          [GeminiInvoke (trim s), OpenAIInvoke (trim s), ClaudeInvoke (synthesisPrompt w (trim s))])"
    "AgentResponse.error (gemini (agents d))
       = (if truthy (AgentState.geminiError (stateAfterAgents w (trim s)))
          then AgentState.geminiError (stateAfterAgents w (trim s)) else None)"
    "AgentResponse.error (openai (agents d))
       = (if truthy (AgentState.openaiError (stateAfterAgents w (trim s)))
          then AgentState.openaiError (stateAfterAgents w (trim s)) else None)"
    by blast
  have g: "AgentResponse.error (gemini (agents d))
              = Some (ascii ''Failed to get response from Gemini'')
         \<and> (message e \<noteq> ascii ''Failed to get response from Gemini'' \<longrightarrow>
              AgentResponse.error (gemini (agents d)) \<noteq> Some (message e))
         \<and> (\<exists>err. fst (queryGemini w (trim s)) = Inl err \<and> originalError err = e)"
    if "settles (geminiInvoke w (trim s)) = Inl e" for e
  proof -
    from that have q: "fst (queryGemini w (trim s))
        = Inl (AgentError (ascii ''Failed to get response from Gemini'')
                 (captureStack w (ascii ''Failed to get response from Gemini''))
                 (ascii ''Gemini'') e)"
      by (simp add: queryGemini_result)
    then have "geminiOutcome w (trim s)
        = Inl (AgentError (ascii ''Failed to get response from Gemini'')
                 (captureStack w (ascii ''Failed to get response from Gemini''))
                 (ascii ''Gemini'') e)"
      by (simp add: geminiOutcome_def)
    from stateAfterAgents_gemini_failed(1) [OF this] d(2) q show ?thesis
      by (simp add: truthy_def wrapper_messages_nonempty)
  qed
  have o: "AgentResponse.error (openai (agents d))
              = Some (ascii ''Failed to get response from OpenAI'')
         \<and> (message e \<noteq> ascii ''Failed to get response from OpenAI'' \<longrightarrow>
              AgentResponse.error (openai (agents d)) \<noteq> Some (message e))
         \<and> (\<exists>err. fst (queryOpenAI w (trim s)) = Inl err \<and> originalError err = e)"
    if "settles (openaiInvoke w (trim s)) = Inl e" for e
  proof -
    from that have q: "fst (queryOpenAI w (trim s))
        = Inl (AgentError (ascii ''Failed to get response from OpenAI'')
                 (captureStack w (ascii ''Failed to get response from OpenAI''))
                 (ascii ''OpenAI'') e)"
      by (simp add: queryOpenAI_rejected)
    then have "openaiOutcome w (trim s)
        = Inl (AgentError (ascii ''Failed to get response from OpenAI'')
                 (captureStack w (ascii ''Failed to get response from OpenAI''))
                 (ascii ''OpenAI'') e)"
      by (simp add: openaiOutcome_def)
    from stateAfterAgents_openai_failed(1) [OF this] d(3) q show ?thesis
      by (simp add: truthy_def wrapper_messages_nonempty)
  qed
  from d(1) g o show ?thesis by blast
qed

text \<open>An instance: the network error \<open>fetch failed\<close> is reported under the fixed message.\<close>

theorem branch_error_is_wrapper_message_witness:
  "settles (geminiInvoke (scenario geminiDown openaiParis claudeParis) capital)
     = Inl (JsError (ascii ''fetch failed'') None)
   \<and> (\<exists>d calls.
        askQuestion (scenario geminiDown openaiParis claudeParis) (JString capital)
          = (200, \<lparr> success = True, data = Some d, ChatResponse.error = None, details = None \<rparr>,
             calls)
        \<and> AgentResponse.error (gemini (agents d))
            = Some (ascii ''Failed to get response from Gemini'')
        \<and> AgentResponse.error (gemini (agents d)) \<noteq> Some (ascii ''fetch failed''))"
proof -
  let ?W = "scenario geminiDown openaiParis claudeParis"
  have 1: "trim capital \<noteq> []" by (simp add: capital_trimmed)
  have 2: "settles (claudeInvoke ?W (synthesisPrompt ?W (trim capital)))
             = Inr (formattedReply (ascii ''Both agree.'') (ascii ''Paris.''))"
    by (simp add: scenario_def claudeParis_def)
  have 3: "settles (geminiInvoke ?W capital) = Inl (JsError (ascii ''fetch failed'') None)"
    by (simp add: scenario_def geminiDown_def)
  have 4: "ascii ''fetch failed'' \<noteq> ascii ''Failed to get response from Gemini''"
    by (simp add: ascii_def)
  from branch_error_is_wrapper_message [OF 1 2] 3 4 show ?thesis
    by (simp add: capital_trimmed; blast)
qed

text \<open>
  Claim C4 as stated fails: a rejected remote call makes \<open>queryGemini\<close> and
  \<open>queryOpenAI\<close> throw, across their own boundary, an \<open>AgentError\<close>.
\<close>

theorem query_throws_counterexample:
  "fst (queryGemini (scenario geminiDown openaiParis claudeParis) capital)
     = Inl (AgentError (ascii ''Failed to get response from Gemini'') None (ascii ''Gemini'')
              (JsError (ascii ''fetch failed'') None))
   \<and> fst (queryOpenAI (scenario geminiParis openaiDown claudeParis) capital)
     = Inl (AgentError (ascii ''Failed to get response from OpenAI'') None (ascii ''OpenAI'')
              (JsError (ascii ''socket hang up'') None))"
  by (simp add: queryGemini_def queryOpenAI_def newAgentError_def scenario_def
      geminiDown_def openaiDown_def)

text \<open>
  Claim C4, as the code has it. Each query function catches a failure of its remote call and
  throws an \<open>AgentError\<close> that carries the fixed message of the caller and the original
  error. The failure becomes data one level up: after \<open>runParallelAgents\<close>, which settles
  both promises and does not throw, the state holds the message as the error of the branch.
\<close>

theorem query_failure_is_rethrown:
  "(settles (geminiInvoke w q) = Inl e \<longrightarrow>
      fst (queryGemini w q)
        = Inl (AgentError (ascii ''Failed to get response from Gemini'')
                 (captureStack w (ascii ''Failed to get response from Gemini''))
                 (ascii ''Gemini'') e))
   \<and> (settles (openaiInvoke w q) = Inl e' \<longrightarrow>
      fst (queryOpenAI w q)
        = Inl (AgentError (ascii ''Failed to get response from OpenAI'')
                 (captureStack w (ascii ''Failed to get response from OpenAI''))
                 (ascii ''OpenAI'') e'))
   \<and> (isl (fst (queryGemini w q)) \<longrightarrow>
        AgentState.geminiError (fst (runParallelAgents w (initialState q)))
          = Some (ascii ''Failed to get response from Gemini''))
   \<and> (isl (fst (queryOpenAI w q)) \<longrightarrow>
        AgentState.openaiError (fst (runParallelAgents w (initialState q)))
          = Some (ascii ''Failed to get response from OpenAI''))"
proof (intro conjI impI)
  assume "settles (geminiInvoke w q) = Inl e"
  then show "fst (queryGemini w q)
        = Inl (AgentError (ascii ''Failed to get response from Gemini'')
                 (captureStack w (ascii ''Failed to get response from Gemini''))
                 (ascii ''Gemini'') e)"
    by (simp add: queryGemini_result)
next
  assume "settles (openaiInvoke w q) = Inl e'"
  then show "fst (queryOpenAI w q)
        = Inl (AgentError (ascii ''Failed to get response from OpenAI'')
                 (captureStack w (ascii ''Failed to get response from OpenAI''))
                 (ascii ''OpenAI'') e')"
    by (simp add: queryOpenAI_rejected)
next
  assume "isl (fst (queryGemini w q))"
  then obtain x where "geminiOutcome w q = Inl x"
    by (cases "fst (queryGemini w q)") (simp_all add: geminiOutcome_def)
  from stateAfterAgents_gemini_failed(1) [OF this]
  show "AgentState.geminiError (fst (runParallelAgents w (initialState q)))
          = Some (ascii ''Failed to get response from Gemini'')"
    by (simp add: stateAfterAgents_def)
next
  assume "isl (fst (queryOpenAI w q))"
  then obtain x where "openaiOutcome w q = Inl x"
    by (cases "fst (queryOpenAI w q)") (simp_all add: openaiOutcome_def)
  from stateAfterAgents_openai_failed(1) [OF this]
  show "AgentState.openaiError (fst (runParallelAgents w (initialState q)))
          = Some (ascii ''Failed to get response from OpenAI'')"
    by (simp add: stateAfterAgents_def)
qed

text \<open>An instance in which both remote calls are rejected.\<close>

theorem query_failure_is_rethrown_witness:
  "fst (queryGemini (scenario geminiDown openaiDown claudeParis) capital)
     = Inl (AgentError (ascii ''Failed to get response from Gemini'') None (ascii ''Gemini'')
              (JsError (ascii ''fetch failed'') None))
   \<and> fst (queryOpenAI (scenario geminiDown openaiDown claudeParis) capital)
     = Inl (AgentError (ascii ''Failed to get response from OpenAI'') None (ascii ''OpenAI'')
              (JsError (ascii ''socket hang up'') None))
   \<and> AgentState.geminiError
        (fst (runParallelAgents (scenario geminiDown openaiDown claudeParis) (initialState capital)))
      = Some (ascii ''Failed to get response from Gemini'')
   \<and> AgentState.openaiError
        (fst (runParallelAgents (scenario geminiDown openaiDown claudeParis) (initialState capital)))
      = Some (ascii ''Failed to get response from OpenAI'')"
proof -
  let ?W = "scenario geminiDown openaiDown claudeParis"
  have 1: "settles (geminiInvoke ?W capital) = Inl (JsError (ascii ''fetch failed'') None)"
    by (simp add: scenario_def geminiDown_def)
  have 2: "settles (openaiInvoke ?W capital) = Inl (JsError (ascii ''socket hang up'') None)"
    by (simp add: scenario_def openaiDown_def)
  have 3: "captureStack ?W m = None" for m by (simp add: scenario_def)
  from query_failure_is_rethrown
         [of ?W capital "JsError (ascii ''fetch failed'') None"
            "JsError (ascii ''socket hang up'') None"] 1 2
  show ?thesis by (simp add: 3)
qed

text \<open>
  Claim C5 at a failing input. Gemini is unreachable and its call takes 100 ms; the state
  after the fan-out holds no time for Gemini, the response reports 0 ms for it, and the
  total of 200 ms leaves the 100 ms out.
\<close>

theorem failed_branch_time_not_recorded:
  "settles (geminiInvoke (scenario geminiDown openaiParis claudeParis) capital)
     = Inl (JsError (ascii ''fetch failed'') None)
   \<and> clockAfter (geminiInvoke (scenario geminiDown openaiParis claudeParis) capital)
       - clockBefore (geminiInvoke (scenario geminiDown openaiParis claudeParis) capital) = 100
   \<and> geminiTime (metadata (stateAfterAgents (scenario geminiDown openaiParis claudeParis) capital))
       = None
   \<and> fst (askQuestion (scenario geminiDown openaiParis claudeParis) (JString capital)) = 200
   \<and> map_option (AgentResponse.processingTime \<circ> gemini \<circ> agents)
       (data (fst (snd (askQuestion (scenario geminiDown openaiParis claudeParis) (JString capital)))))
       = Some 0
   \<and> map_option totalProcessingTime
       (data (fst (snd (askQuestion (scenario geminiDown openaiParis claudeParis) (JString capital)))))
       = Some (150 + 50)"
proof -
  let ?W = "scenario geminiDown openaiParis claudeParis"
  have 1: "trim capital \<noteq> []" by (simp add: capital_trimmed)
  have 2: "settles (claudeInvoke ?W (synthesisPrompt ?W (trim capital)))
             = Inr (formattedReply (ascii ''Both agree.'') (ascii ''Paris.''))"
    by (simp add: scenario_def claudeParis_def)
  have 3: "geminiOutcome ?W capital
             = Inl (AgentError (ascii ''Failed to get response from Gemini'') None (ascii ''Gemini'')
                      (JsError (ascii ''fetch failed'') None))"
    by (simp add: geminiOutcome_def queryGemini_def newAgentError_def scenario_def geminiDown_def)
  have 4: "openaiOutcome ?W capital = Inr (Some (ascii ''Paris, France''), 150)"
    by (simp add: openaiOutcome_def queryOpenAI_def firstText_def scenario_def openaiParis_def)
  have 5: "clockAfter (claudeInvoke ?W p) - clockBefore (claudeInvoke ?W p) = 50" for p
    by (simp add: scenario_def claudeParis_def)
  have 6: "geminiTime (metadata (stateAfterAgents ?W capital)) = None"
    by (rule stateAfterAgents_gemini_failed(3) [OF 3])
  have 7: "openaiTime (metadata (stateAfterAgents ?W capital)) = Some 150"
    by (rule stateAfterAgents_openai_replied(3) [OF 4])
  from askQuestion_completed [OF 1 2] obtain d where d:
    "askQuestion ?W (JString capital)
       = (200, \<lparr> success = True, data = Some d, ChatResponse.error = None, details = None \<rparr>,
          [GeminiInvoke (trim capital), OpenAIInvoke (trim capital),
           ClaudeInvoke (synthesisPrompt ?W (trim capital))])"
    "AgentResponse.processingTime (gemini (agents d))
       = orZero (geminiTime (metadata (stateAfterAgents ?W (trim capital))))"
    "totalProcessingTime d
       = orZero (geminiTime (metadata (stateAfterAgents ?W (trim capital))))
         + orZero (openaiTime (metadata (stateAfterAgents ?W (trim capital))))
         + (clockAfter (claudeInvoke ?W (synthesisPrompt ?W (trim capital)))
            - clockBefore (claudeInvoke ?W (synthesisPrompt ?W (trim capital))))"
    by blast
  from d(2,3) have "AgentResponse.processingTime (gemini (agents d)) = 0"
    and "totalProcessingTime d = 200"
    by (simp_all add: capital_trimmed 5 6 7 orZero_def)
  moreover have "settles (geminiInvoke ?W capital) = Inl (JsError (ascii ''fetch failed'') None)"
    and "clockAfter (geminiInvoke ?W capital) - clockBefore (geminiInvoke ?W capital) = 100"
    by (simp_all add: scenario_def geminiDown_def)
  ultimately show ?thesis using d(1) 6 by simp
qed

lemma runClaudeSynthesis_calls:
  "snd (runClaudeSynthesis w st) = [ClaudeInvoke (buildSynthesisPrompt (synthesisInput st))]"
  by (cases "settles (claudeInvoke w (buildSynthesisPrompt (synthesisInput st)))")
     (simp_all add: runClaudeSynthesis_replied runClaudeSynthesis_rejected)

lemma synthesisInput_fields:
  "SynthesisInput.geminiResponse (synthesisInput st) = AgentState.geminiResponse st"
  "SynthesisInput.geminiError (synthesisInput st) = AgentState.geminiError st"
  "SynthesisInput.openaiResponse (synthesisInput st) = AgentState.openaiResponse st"
  "SynthesisInput.openaiError (synthesisInput st) = AgentState.openaiError st"
  by (simp_all add: synthesisInput_def)

text \<open>
  Claim C7, as the code has it. For every pair of branch outcomes, also when both branches
  failed, the synthesis is invoked, once and after the two branch calls, with a prompt that
  holds, for each branch, the error marker with the failure message of the branch when it
  failed, and the labelled response text when it succeeded with a text that is not empty.
\<close>

theorem synthesis_prompt_embeds_outcomes:
  "snd (executeAgentWorkflow w q)
     = [GeminiInvoke q, OpenAIInvoke q, ClaudeInvoke (synthesisPrompt w q)]
   \<and> (\<forall>e. geminiOutcome w q = Inl e \<longrightarrow>
         sublist (ascii ''Gemini's Response: [ERROR] '' @ message e @ ascii ''\<newline>\<newline>'')
           (synthesisPrompt w q))
   \<and> (\<forall>t ms. geminiOutcome w q = Inr (Some t, ms) \<and> t \<noteq> [] \<longrightarrow>
         sublist (ascii ''Gemini's Response:\<newline>'' @ t @ ascii ''\<newline>\<newline>'')
           (synthesisPrompt w q))
   \<and> (\<forall>e. openaiOutcome w q = Inl e \<longrightarrow>
         sublist (ascii ''OpenAI's Response: [ERROR] '' @ message e @ ascii ''\<newline>\<newline>'')
           (synthesisPrompt w q))
   \<and> (\<forall>t ms. openaiOutcome w q = Inr (Some t, ms) \<and> t \<noteq> [] \<longrightarrow>
         sublist (ascii ''OpenAI's Response:\<newline>'' @ t @ ascii ''\<newline>\<newline>'')
           (synthesisPrompt w q))"
proof (intro conjI allI impI)
  show "snd (executeAgentWorkflow w q)
     = [GeminiInvoke q, OpenAIInvoke q, ClaudeInvoke (synthesisPrompt w q)]"
    by (simp add: executeAgentWorkflow_stages runClaudeSynthesis_calls synthesisPrompt_def)
next
  fix e assume a: "geminiOutcome w q = Inl e"
  from geminiOutcome_failed [OF a]
  have m: "message e = ascii ''Failed to get response from Gemini''" by auto
  let ?input = "synthesisInput (stateAfterAgents w q)"
  from stateAfterAgents_gemini_failed [OF a]
  have "\<not> truthy (SynthesisInput.geminiResponse ?input)"
    and "truthy (SynthesisInput.geminiError ?input)"
    and "the (SynthesisInput.geminiError ?input) = message e"
    by (simp_all add: synthesisInput_fields truthy_def m wrapper_messages_nonempty)
  with buildSynthesisPrompt_gemini_error [of ?input]
  show "sublist (ascii ''Gemini's Response: [ERROR] '' @ message e @ ascii ''\<newline>\<newline>'')
           (synthesisPrompt w q)"
    by (simp add: synthesisPrompt_def)
next
  fix t ms assume a: "geminiOutcome w q = Inr (Some t, ms) \<and> t \<noteq> []"
  let ?input = "synthesisInput (stateAfterAgents w q)"
  from a stateAfterAgents_gemini_replied(2) [of w q "Some t" ms]
  have "truthy (SynthesisInput.geminiResponse ?input)"
    and "the (SynthesisInput.geminiResponse ?input) = t"
    by (simp_all add: synthesisInput_fields truthy_def)
  with buildSynthesisPrompt_gemini_text [of ?input]
  show "sublist (ascii ''Gemini's Response:\<newline>'' @ t @ ascii ''\<newline>\<newline>'')
           (synthesisPrompt w q)"
    by (simp add: synthesisPrompt_def)
next
  fix e assume a: "openaiOutcome w q = Inl e"
  from openaiOutcome_failed [OF a]
  have m: "message e = ascii ''Failed to get response from OpenAI''" by auto
  let ?input = "synthesisInput (stateAfterAgents w q)"
  from stateAfterAgents_openai_failed [OF a]
  have "\<not> truthy (SynthesisInput.openaiResponse ?input)"
    and "truthy (SynthesisInput.openaiError ?input)"
    and "the (SynthesisInput.openaiError ?input) = message e"
    by (simp_all add: synthesisInput_fields truthy_def m wrapper_messages_nonempty)
  with buildSynthesisPrompt_openai_error [of ?input]
  show "sublist (ascii ''OpenAI's Response: [ERROR] '' @ message e @ ascii ''\<newline>\<newline>'')
           (synthesisPrompt w q)"
    by (simp add: synthesisPrompt_def)
next
  fix t ms assume a: "openaiOutcome w q = Inr (Some t, ms) \<and> t \<noteq> []"
  let ?input = "synthesisInput (stateAfterAgents w q)"
  from a stateAfterAgents_openai_replied(2) [of w q "Some t" ms]
  have "truthy (SynthesisInput.openaiResponse ?input)"
    and "the (SynthesisInput.openaiResponse ?input) = t"
    by (simp_all add: synthesisInput_fields truthy_def)
  with buildSynthesisPrompt_openai_text [of ?input]
  show "sublist (ascii ''OpenAI's Response:\<newline>'' @ t @ ascii ''\<newline>\<newline>'')
           (synthesisPrompt w q)"
    by (simp add: synthesisPrompt_def)
qed

text \<open>Instances: both branches failed, and both branches answered.\<close>

theorem synthesis_prompt_embeds_outcomes_witness:
  "snd (executeAgentWorkflow (scenario geminiDown openaiDown claudeParis) capital)
     = [GeminiInvoke capital, OpenAIInvoke capital,
        ClaudeInvoke (synthesisPrompt (scenario geminiDown openaiDown claudeParis) capital)]
   \<and> sublist (ascii ''Gemini's Response: [ERROR] Failed to get response from Gemini\<newline>\<newline>'')
        (synthesisPrompt (scenario geminiDown openaiDown claudeParis) capital)
   \<and> sublist (ascii ''OpenAI's Response: [ERROR] Failed to get response from OpenAI\<newline>\<newline>'')
        (synthesisPrompt (scenario geminiDown openaiDown claudeParis) capital)
   \<and> sublist (ascii ''Gemini's Response:\<newline>Paris\<newline>\<newline>'')
        (synthesisPrompt (scenario geminiParis openaiParis claudeParis) capital)
   \<and> sublist (ascii ''OpenAI's Response:\<newline>Paris, France\<newline>\<newline>'')
        (synthesisPrompt (scenario geminiParis openaiParis claudeParis) capital)"
proof -
  let ?D = "scenario geminiDown openaiDown claudeParis"
  let ?U = "scenario geminiParis openaiParis claudeParis"
  have 1: "geminiOutcome ?D capital
             = Inl (AgentError (ascii ''Failed to get response from Gemini'') None (ascii ''Gemini'')
                      (JsError (ascii ''fetch failed'') None))"
    by (simp add: geminiOutcome_def queryGemini_def newAgentError_def scenario_def geminiDown_def)
  have 2: "openaiOutcome ?D capital
             = Inl (AgentError (ascii ''Failed to get response from OpenAI'') None (ascii ''OpenAI'')
                      (JsError (ascii ''socket hang up'') None))"
    by (simp add: openaiOutcome_def queryOpenAI_def newAgentError_def scenario_def openaiDown_def)
  have 3: "geminiOutcome ?U capital = Inr (Some (ascii ''Paris''), 100)"
    by (simp add: geminiOutcome_def queryGemini_def scenario_def geminiParis_def)
  have 4: "openaiOutcome ?U capital = Inr (Some (ascii ''Paris, France''), 150)"
    by (simp add: openaiOutcome_def queryOpenAI_def firstText_def scenario_def openaiParis_def)
  have 5: "ascii ''Paris'' \<noteq> []" "ascii ''Paris, France'' \<noteq> []" by (simp_all add: ascii_def)
  from synthesis_prompt_embeds_outcomes [of ?D capital] 1 2
    synthesis_prompt_embeds_outcomes [of ?U capital] 3 4 5
  show ?thesis by (simp add: ascii_def)
qed

text \<open>
  Claim C7 as stated fails: a branch that succeeded with an empty text is not mentioned in
  the prompt at all, since the empty string is falsy.
\<close>

theorem empty_reply_has_no_section_counterexample:
  "geminiOutcome (scenario geminiEmpty openaiParis claudeParis) capital = Inr (Some [], 100)
   \<and> snd (executeAgentWorkflow (scenario geminiEmpty openaiParis claudeParis) capital)
       = [GeminiInvoke capital, OpenAIInvoke capital,
          ClaudeInvoke (synthesisPrompt (scenario geminiEmpty openaiParis claudeParis) capital)]
   \<and> \<not> sublist (ascii ''Gemini'')
         (synthesisPrompt (scenario geminiEmpty openaiParis claudeParis) capital)"
proof -
  let ?W = "scenario geminiEmpty openaiParis claudeParis"
  have "geminiOutcome ?W capital = Inr (Some [], 100)"
    by (simp add: geminiOutcome_def queryGemini_def scenario_def geminiEmpty_def)
  moreover have "snd (executeAgentWorkflow ?W capital)
       = [GeminiInvoke capital, OpenAIInvoke capital, ClaudeInvoke (synthesisPrompt ?W capital)]"
    by (simp add: executeAgentWorkflow_stages runClaudeSynthesis_calls synthesisPrompt_def)
  moreover have "\<not> sublist (ascii ''Gemini'') (synthesisPrompt ?W capital)"
    by (simp add: synthesisPrompt_def stateAfterAgents_def runParallelAgents_def queryGemini_def
        queryOpenAI_def firstText_def settled_def initialState_def synthesisInput_def
        buildSynthesisPrompt_def truthy_def scenario_def geminiEmpty_def openaiParis_def
        capital_def promptOpening_def promptTask_def ascii_def sublist_Cons_right Let_def)
  ultimately show ?thesis by simp
qed

end
